theory Spec2Isabelle
  imports Complex_Main
begin

text \<open>
  A model of \<open>ncbi_geneid_to_ptlen-genelen.py\<close>: the configuration reader
  \<open>read_email_from_config\<close>, the record fetcher \<open>fetch_gene_data\<close> and the batch
  processor \<open>process_gene_list\<close>. Each function of the program is a function of the model
  that returns the exception raised or the value returned; what a function prints, the
  pauses it makes and the table it writes are returned as a list of events. The library
  functions the program calls are modelled where the properties below depend on what
  they do (\<open>configparser\<close>, \<open>os.path.splitext\<close>, subscripting) and are parameters of
  the model otherwise (the remote lookups, the spreadsheet reader and writer, \<open>int\<close>).
  Strings are lists of characters; the characters the program inspects are ASCII.
\<close>

section \<open>Exceptions\<close>

text \<open>
  Python exceptions are values. The classes the program names in an \<open>except\<close> clause or that
  its subscripting can raise have a constructor of their own; \<open>OtherError cls msg\<close> stands for
  an exception of any other class \<open>cls\<close> deriving from \<open>Exception\<close> (and from none of the named
  ones). The argument is the exception's argument (its message). Exceptions outside
  \<open>Exception\<close> (an operator's interrupt) are not modelled.
\<close>

datatype exn =
    FileNotFoundError string
  | KeyError string
  | IndexError string
  | TypeError string
  | ValueError string
  | OtherError string string

section \<open>The configuration parser the program calls\<close>

text \<open>
  \<open>configparser.ConfigParser\<close> keeps the options of the \<open>[DEFAULT]\<close> section apart from
  those of the named sections. Option names are stored in lower case (\<open>optionxform\<close>).
  How the text of a file becomes sections and options is the library's parser and is not
  modelled: a file that can be opened either fails to parse or holds defaults and sections.
\<close>

record config_parser =
  defaults :: "string \<rightharpoonup> string"
  sections :: "string \<rightharpoonup> (string \<rightharpoonup> string)"

datatype config_file =
    Unparseable string
  | Parsed "string \<rightharpoonup> string" "string \<rightharpoonup> (string \<rightharpoonup> string)"

text \<open>The files of the working directory: \<open>None\<close> where \<open>open\<close> raises \<open>OSError\<close>.\<close>

type_synonym filesystem = "string \<Rightarrow> config_file option"

definition ConfigParser :: config_parser where
  "ConfigParser = \<lparr>defaults = Map.empty, sections = Map.empty\<rparr>"

definition default_section :: string where
  "default_section = ''DEFAULT''"

definition MAX_INTERPOLATION_DEPTH :: nat where
  "MAX_INTERPOLATION_DEPTH = 10"

text \<open>\<open>str.lower\<close>, on the ASCII letters.\<close>

definition lower_char :: "char \<Rightarrow> char" where
  "lower_char c =
     (let n = (of_char c :: nat) in if 65 \<le> n \<and> n \<le> 90 then char_of (n + 32) else c)"

definition optionxform :: "string \<Rightarrow> string" where
  "optionxform s = map lower_char s"

text \<open>
  \<open>ConfigParser.read\<close> with one file name: a file that cannot be opened is skipped without
  an error; a file that opens is parsed into the parser, and a parse error propagates.
\<close>

definition merge_sections ::
  "(string \<rightharpoonup> (string \<rightharpoonup> string)) \<Rightarrow> (string \<rightharpoonup> (string \<rightharpoonup> string)) \<Rightarrow> (string \<rightharpoonup> (string \<rightharpoonup> string))"
where
  "merge_sections old new = (\<lambda>s.
     case new s of
       None \<Rightarrow> old s
     | Some opts \<Rightarrow> Some ((case old s of None \<Rightarrow> Map.empty | Some opts0 \<Rightarrow> opts0) ++ opts))"

definition config_read :: "filesystem \<Rightarrow> config_parser \<Rightarrow> string \<Rightarrow> exn + config_parser" where
  "config_read fs config filename =
     (case fs filename of
        None \<Rightarrow> Inr config
      | Some (Unparseable msg) \<Rightarrow> Inl (OtherError ''ParsingError'' msg)
      | Some (Parsed d s) \<Rightarrow>
          Inr \<lparr>defaults = defaults config ++ d, sections = merge_sections (sections config) s\<rparr>)"

definition has_section :: "config_parser \<Rightarrow> string \<Rightarrow> bool" where
  "has_section config section = (sections config section \<noteq> None)"

definition has_option :: "config_parser \<Rightarrow> string \<Rightarrow> string \<Rightarrow> bool" where
  "has_option config section option =
     (if section = [] \<or> section = default_section then
        defaults config (optionxform option) \<noteq> None
      else case sections config section of
        None \<Rightarrow> False
      | Some opts \<Rightarrow>
          opts (optionxform option) \<noteq> None \<or> defaults config (optionxform option) \<noteq> None)"

text \<open>
  The values visible from a section: its own options first, then the defaults
  (\<open>_unify_values\<close>, a \<open>ChainMap\<close>).
\<close>

definition unify_values :: "config_parser \<Rightarrow> string \<Rightarrow> exn + (string \<rightharpoonup> string)" where
  "unify_values config section =
     (case sections config section of
        None \<Rightarrow>
          if section \<noteq> default_section then Inl (OtherError ''NoSectionError'' section)
          else Inr (defaults config)
      | Some opts \<Rightarrow> Inr (defaults config ++ opts))"

text \<open>
  \<open>BasicInterpolation\<close>, the interpolation of a \<open>ConfigParser()\<close>: in a value, \<open>%%\<close> stands
  for one \<open>%\<close>, \<open>%(name)s\<close> for the (interpolated) value of option \<open>name\<close>, and any other use
  of \<open>%\<close> is an \<open>InterpolationSyntaxError\<close>. \<open>match_key\<close> is the regular expression
  \<open>%\(([^)]+)\)s\<close> applied after its first two characters.
\<close>

definition match_key :: "string \<Rightarrow> (string \<times> string) option" where
  "match_key r =
     (let name = takeWhile (\<lambda>c. c \<noteq> CHR '')'') r;
          after = dropWhile (\<lambda>c. c \<noteq> CHR '')'') r
      in if name \<noteq> [] \<and> take 2 after = '')s'' then Some (name, drop 2 after) else None)"

function interpolate_some :: "(string \<rightharpoonup> string) \<Rightarrow> nat \<Rightarrow> string \<Rightarrow> exn + string" where
  "interpolate_some m depth rest =
     (if depth > MAX_INTERPOLATION_DEPTH then Inl (OtherError ''InterpolationDepthError'' rest)
      else case rest of
        [] \<Rightarrow> Inr []
      | c # cs \<Rightarrow>
          if c \<noteq> CHR ''%'' then
            (case interpolate_some m depth cs of
               Inl e \<Rightarrow> Inl e
             | Inr out \<Rightarrow> Inr (c # out))
          else
            (case cs of
               [] \<Rightarrow> Inl (OtherError ''InterpolationSyntaxError'' rest)
             | d # r \<Rightarrow>
                 if d = CHR ''%'' then
                   (case interpolate_some m depth r of
                      Inl e \<Rightarrow> Inl e
                    | Inr out \<Rightarrow> Inr (CHR ''%'' # out))
                 else if d = CHR ''('' then
                   (case match_key r of
                      None \<Rightarrow> Inl (OtherError ''InterpolationSyntaxError'' rest)
                    | Some (name, rest') \<Rightarrow>
                        (case m (optionxform name) of
                           None \<Rightarrow> Inl (OtherError ''InterpolationMissingOptionError'' name)
                         | Some v \<Rightarrow>
                             (case (if CHR ''%'' \<in> set v then interpolate_some m (depth + 1) v
                                    else Inr v) of
                                Inl e \<Rightarrow> Inl e
                              | Inr a \<Rightarrow>
                                  (case interpolate_some m depth rest' of
                                     Inl e \<Rightarrow> Inl e
                                   | Inr b \<Rightarrow> Inr (a @ b)))))
                 else Inl (OtherError ''InterpolationSyntaxError'' rest)))"
  by pat_completeness auto
termination
proof (relation "measures [\<lambda>(m, depth, rest). Suc MAX_INTERPOLATION_DEPTH - depth,
                          \<lambda>(m, depth, rest). length rest]", goal_cases)
  case (5 m depth rest c cs d r x2 name rest' v a)
  then have "rest' = drop 2 (dropWhile (\<lambda>c. c \<noteq> CHR '')'') r)"
    by (auto simp: match_key_def Let_def split: if_splits)
  moreover have "length (dropWhile (\<lambda>c. c \<noteq> CHR '')'') r) \<le> length r"
    by (rule length_dropWhile_le)
  ultimately show ?case using 5 by simp
qed auto

declare interpolate_some.simps [simp del]

definition before_get :: "(string \<rightharpoonup> string) \<Rightarrow> string \<Rightarrow> exn + string" where
  "before_get m v = interpolate_some m 1 v"

definition config_get :: "config_parser \<Rightarrow> string \<Rightarrow> string \<Rightarrow> exn + string" where
  "config_get config section option =
     (case unify_values config section of
        Inl e \<Rightarrow> Inl e
      | Inr d \<Rightarrow>
          (case d (optionxform option) of
             None \<Rightarrow> Inl (OtherError ''NoOptionError'' option)
           | Some v \<Rightarrow> before_get d v))"

text \<open>\<open>config[section]\<close>: the section's proxy, which the model identifies with its name.\<close>

definition parser_getitem :: "config_parser \<Rightarrow> string \<Rightarrow> exn + string" where
  "parser_getitem config key =
     (if key \<noteq> default_section \<and> \<not> has_section config key then Inl (KeyError key)
      else Inr key)"

text \<open>\<open>proxy[key]\<close> on the proxy of section \<open>name\<close>.\<close>

definition proxy_getitem :: "config_parser \<Rightarrow> string \<Rightarrow> string \<Rightarrow> exn + string" where
  "proxy_getitem config name key =
     (if \<not> has_option config name key then Inl (KeyError key)
      else config_get config name key)"

section \<open>read_email_from_config\<close>

definition config_not_found_msg :: "string \<Rightarrow> string" where
  "config_not_found_msg config_file =
     ''Configuration file '' @ [CHR 0x27] @ config_file @ [CHR 0x27] @ '' not found. '' @
     ''Please create a 'config.ini' file with the following content:\<newline>'' @
     ''[NCBI]\<newline>'' @
     ''email = your_email@example.com''"

definition email_key_missing_msg :: string where
  "email_key_missing_msg =
     ''The 'email' key is not found in the 'NCBI' section of the config file. '' @
     ''Please make sure the config file is correctly formatted.''"

text \<open>The body of the \<open>try\<close> statement (lines 24 to 26).\<close>

definition read_email_try :: "filesystem \<Rightarrow> string \<Rightarrow> exn + string" where
  "read_email_try fs config_file =
     (case config_read fs ConfigParser config_file of
        Inl e \<Rightarrow> Inl e
      | Inr config \<Rightarrow>
          (case parser_getitem config ''NCBI'' of
             Inl e \<Rightarrow> Inl e
           | Inr proxy \<Rightarrow> proxy_getitem config proxy ''email''))"

text \<open>The two handlers (lines 27 to 34); any other exception propagates unchanged.\<close>

definition read_email_from_config :: "filesystem \<Rightarrow> string \<Rightarrow> exn + string" where
  "read_email_from_config fs config_file =
     (case read_email_try fs config_file of
        Inl (FileNotFoundError _) \<Rightarrow> Inl (FileNotFoundError (config_not_found_msg config_file))
      | Inl (KeyError _) \<Rightarrow> Inl (KeyError email_key_missing_msg)
      | r \<Rightarrow> r)"

section \<open>Values of the gene record\<close>

text \<open>
  \<open>Entrez.read\<close> returns nested lists, dictionaries (with string keys) and strings.
  The program subscripts them with the literal \<open>0\<close> and with string keys, and converts two
  leaves with \<open>int\<close>. The wording of the messages of built-in exceptions is indicative.
\<close>

datatype pyval =
    PNone
  | PInt int
  | PStr string
  | PList "pyval list"
  | PDict "(string \<times> pyval) list"

datatype subscript = At0 | Key string

fun getitem :: "pyval \<Rightarrow> subscript \<Rightarrow> exn + pyval" where
  "getitem (PList []) At0 = Inl (IndexError ''list index out of range'')"
| "getitem (PList (x # xs)) At0 = Inr x"
| "getitem (PList xs) (Key k) = Inl (TypeError ''list indices must be integers or slices, not str'')"
| "getitem (PDict kvs) At0 = Inl (KeyError ''0'')"
| "getitem (PDict kvs) (Key k) =
     (case map_of kvs k of None \<Rightarrow> Inl (KeyError k) | Some v \<Rightarrow> Inr v)"
| "getitem (PStr []) At0 = Inl (IndexError ''string index out of range'')"
| "getitem (PStr (c # cs)) At0 = Inr (PStr [c])"
| "getitem (PStr cs) (Key k) = Inl (TypeError ''string indices must be integers'')"
| "getitem (PInt i) sub = Inl (TypeError ''int object is not subscriptable'')"
| "getitem PNone sub = Inl (TypeError ''NoneType object is not subscriptable'')"

fun bind_exn :: "exn + 'a \<Rightarrow> ('a \<Rightarrow> exn + 'b) \<Rightarrow> exn + 'b" where
  "bind_exn (Inl e) f = Inl e"
| "bind_exn (Inr x) f = f x"

text \<open>A chain of subscripts \<open>v[s1][s2]...\<close>, evaluated left to right.\<close>

fun navigate :: "pyval \<Rightarrow> subscript list \<Rightarrow> exn + pyval" where
  "navigate v [] = Inr v"
| "navigate v (s # ss) = bind_exn (getitem v s) (\<lambda>w. navigate w ss)"

text \<open>
  \<open>int(x)\<close> on a value of the record. What \<open>int\<close> makes of a string is the parameter
  \<open>to_int\<close>.
\<close>

fun py_int :: "(string \<Rightarrow> exn + int) \<Rightarrow> pyval \<Rightarrow> exn + int" where
  "py_int to_int (PInt i) = Inr i"
| "py_int to_int (PStr s) = to_int s"
| "py_int to_int v =
     Inl (TypeError ''int() argument must be a string, a bytes-like object or a real number'')"

section \<open>The program's surroundings\<close>

datatype os_name = posix | nt

text \<open>
  A row of the output table, with the columns of line 101. An absent value is \<open>None\<close>.
\<close>

record 'g row =
  Gene_ID :: 'g
  Accession :: "pyval option"
  Gene_Length :: "int option"
  Protein_Length :: "nat option"

text \<open>
  What the program does not compute itself: the configuration files, the platform of
  \<open>os.path\<close>, \<open>int\<close> on a cell of the input table (of type \<open>'g\<close>) and on a string,
  the two remote lookups (each with the contact address \<open>Entrez.email\<close> in force; the
  protein lookup includes \<open>SeqIO.read\<close> and yields the sequence), and reading and writing
  spreadsheets. A table is read as a map from column names to columns.
\<close>

record 'g env =
  files :: filesystem
  os :: os_name
  int_of_cell :: "'g \<Rightarrow> exn + int"
  int_of_str :: "string \<Rightarrow> exn + int"
  efetch_gene :: "string \<Rightarrow> int \<Rightarrow> exn + pyval"
  efetch_protein :: "string \<Rightarrow> pyval \<Rightarrow> exn + string"
  read_excel :: "string \<Rightarrow> exn + (string \<rightharpoonup> 'g list)"
  to_excel :: "string \<Rightarrow> 'g row list \<Rightarrow> exn option"

text \<open>
  What the program does to the outside, in order: the pauses, the lines it prints, and the
  call that writes the output table. \<open>Print_error\<close> carries the value of the variable
  \<open>gene_id\<close> at the time (the cell, or the integer once line 53 has rebound it).
\<close>

datatype 'g event =
    Sleep rat
  | Print_gene_done int int
  | Print_protein_done pyval nat
  | Print_error "'g + int" exn
  | Print_exn exn
  | To_excel string "'g row list"
  | Print_saved string

section \<open>fetch_gene_data\<close>

text \<open>Lines 59 to 66: the fields taken from the gene record.\<close>

definition seq_interval :: "subscript list" where
  "seq_interval =
     [At0, Key ''Entrezgene_locus'', At0, Key ''Gene-commentary_seqs'', At0,
      Key ''Seq-loc_int'', Key ''Seq-interval'']"

definition extract_gene_fields :: "(string \<Rightarrow> exn + int) \<Rightarrow> pyval \<Rightarrow> exn + (pyval \<times> int)" where
  "extract_gene_fields to_int record =
     bind_exn (navigate record [At0, Key ''Entrezgene_locus'', At0]) (\<lambda>locus.
     bind_exn (navigate locus [Key ''Gene-commentary_products'', At0,
                               Key ''Gene-commentary_products'', At0]) (\<lambda>product.
     bind_exn (navigate product [Key ''Gene-commentary_accession'']) (\<lambda>protein_accession.
     bind_exn (navigate product [Key ''Gene-commentary_genomic-coords'', At0, Key ''Seq-loc_mix'',
                                 Key ''Seq-loc-mix'', At0, Key ''Seq-loc_int'',
                                 Key ''Seq-interval'']) (\<lambda>genomic_coords.
     bind_exn (navigate record (seq_interval @ [Key ''Seq-interval_to''])) (\<lambda>to.
     bind_exn (py_int to_int to) (\<lambda>gene_end.
     bind_exn (navigate record (seq_interval @ [Key ''Seq-interval_from''])) (\<lambda>from.
     bind_exn (py_int to_int from) (\<lambda>gene_start.
     Inr (protein_accession, \<bar>gene_end - gene_start\<bar>)))))))))"

text \<open>
  The body of the \<open>try\<close> statement (lines 51 to 75), for one pause \<open>delay\<close> drawn by
  \<open>random.uniform\<close>: the events so far, the binding of \<open>gene_id\<close>, and the exception raised
  or the three values returned.
\<close>

definition fetch_try ::
  "'g env \<Rightarrow> string \<Rightarrow> rat \<Rightarrow> 'g \<Rightarrow> 'g event list \<times> ('g + int) \<times> (exn + (pyval \<times> int \<times> nat))"
where
  "fetch_try env email delay gene_id =
     (case int_of_cell env gene_id of
        Inl e \<Rightarrow> ([Sleep delay], Inl gene_id, Inl e)
      | Inr gid \<Rightarrow>
          (case bind_exn (efetch_gene env email gid) (extract_gene_fields (int_of_str env)) of
             Inl e \<Rightarrow> ([Sleep delay], Inr gid, Inl e)
           | Inr (protein_accession, gene_length) \<Rightarrow>
               (case efetch_protein env email protein_accession of
                  Inl e \<Rightarrow> ([Sleep delay, Print_gene_done gid gene_length], Inr gid, Inl e)
                | Inr seq \<Rightarrow>
                    ([Sleep delay, Print_gene_done gid gene_length,
                      Print_protein_done protein_accession (length seq)],
                     Inr gid, Inr (protein_accession, gene_length, length seq)))))"

text \<open>With the handler of lines 77 to 79, which catches every exception.\<close>

definition fetch_gene_data ::
  "'g env \<Rightarrow> string \<Rightarrow> rat \<Rightarrow> 'g \<Rightarrow> 'g event list \<times> (pyval option \<times> int option \<times> nat option)"
where
  "fetch_gene_data env email delay gene_id =
     (case fetch_try env email delay gene_id of
        (evs, bound, Inl e) \<Rightarrow> (evs @ [Print_error bound e], (None, None, None))
      | (evs, bound, Inr (protein_accession, gene_length, protein_length)) \<Rightarrow>
          (evs, (Some protein_accession, Some gene_length, Some protein_length)))"

section \<open>os.path.splitext\<close>

text \<open>\<open>p.rfind(c)\<close> for a single character: the last index of \<open>c\<close>, or \<open>-1\<close>.\<close>

fun rfind :: "string \<Rightarrow> char \<Rightarrow> int" where
  "rfind [] c = - 1"
| "rfind (x # xs) c =
     (let r = rfind xs c in if 0 \<le> r then r + 1 else if x = c then 0 else - 1)"

text \<open>
  \<open>genericpath._splitext\<close>: the extension starts at the last dot of the last component,
  unless only dots come before it there. The loop skips the leading dots.
\<close>

function skip_leading_dots :: "string \<Rightarrow> char \<Rightarrow> int \<Rightarrow> int \<Rightarrow> (string \<times> string) option" where
  "skip_leading_dots p extsep filenameIndex dotIndex =
     (if filenameIndex < dotIndex then
        (if take 1 (drop (nat filenameIndex) p) \<noteq> [extsep] then
           Some (take (nat dotIndex) p, drop (nat dotIndex) p)
         else skip_leading_dots p extsep (filenameIndex + 1) dotIndex)
      else None)"
  by pat_completeness auto
termination
  by (relation "measure (\<lambda>(p, extsep, filenameIndex, dotIndex). nat (dotIndex - filenameIndex))")
     auto

declare skip_leading_dots.simps [simp del]

definition splitext_generic :: "string \<Rightarrow> char \<Rightarrow> char option \<Rightarrow> char \<Rightarrow> string \<times> string" where
  "splitext_generic p sep altsep extsep =
     (let sepIndex = (case altsep of
                        None \<Rightarrow> rfind p sep
                      | Some a \<Rightarrow> max (rfind p sep) (rfind p a));
          dotIndex = rfind p extsep
      in case (if dotIndex > sepIndex then skip_leading_dots p extsep (sepIndex + 1) dotIndex
               else None) of
           Some split \<Rightarrow> split
         | None \<Rightarrow> (p, []))"

definition os_sep :: "os_name \<Rightarrow> char" where
  "os_sep name = (case name of posix \<Rightarrow> CHR ''/'' | nt \<Rightarrow> CHR 0x5C)"

definition os_altsep :: "os_name \<Rightarrow> char option" where
  "os_altsep name = (case name of posix \<Rightarrow> None | nt \<Rightarrow> Some (CHR ''/''))"

definition splitext :: "os_name \<Rightarrow> string \<Rightarrow> string \<times> string" where
  "splitext name p = splitext_generic p (os_sep name) (os_altsep name) (CHR ''.'')"

section \<open>process_gene_list\<close>

text \<open>Line 100.\<close>

definition output_file_name :: "os_name \<Rightarrow> string \<Rightarrow> string" where
  "output_file_name name input_file = fst (splitext name input_file) @ ''_output.xlsx''"

text \<open>
  The loop of lines 95 to 98: \<open>rnd i\<close> is the pause drawn for the \<open>i\<close>-th identifier, and
  the accumulator holds the events so far and the list \<open>data\<close>.
\<close>

fun gene_loop ::
  "'g env \<Rightarrow> string \<Rightarrow> (nat \<Rightarrow> rat) \<Rightarrow> nat \<Rightarrow> 'g list \<Rightarrow> 'g event list \<times> 'g row list
     \<Rightarrow> 'g event list \<times> 'g row list"
where
  "gene_loop env email rnd i [] acc = acc"
| "gene_loop env email rnd i (gene_id # rest) (evs, data) =
     (case fetch_gene_data env email (rnd i) gene_id of
        (ev, (accession, gene_len, protein_len)) \<Rightarrow>
          gene_loop env email rnd (Suc i) rest
            (evs @ ev,
             data @ [\<lparr>Gene_ID = gene_id, Accession = accession, Gene_Length = gene_len,
                      Protein_Length = protein_len\<rparr>]))"

text \<open>\<open>df['Gene ID']\<close>.\<close>

definition column :: "(string \<rightharpoonup> 'g list) \<Rightarrow> string \<Rightarrow> exn + 'g list" where
  "column df name = (case df name of None \<Rightarrow> Inl (KeyError name) | Some cells \<Rightarrow> Inr cells)"

text \<open>
  The body of the \<open>try\<close> statement (lines 89 to 103): the events, and the exception that
  ended it, if any.
\<close>

definition process_try ::
  "'g env \<Rightarrow> (nat \<Rightarrow> rat) \<Rightarrow> string \<Rightarrow> 'g event list \<times> exn option"
where
  "process_try env rnd input_file =
     (case read_email_from_config (files env) ''config.ini'' of
        Inl e \<Rightarrow> ([], Some e)
      | Inr email \<Rightarrow>
          (case read_excel env input_file of
             Inl e \<Rightarrow> ([], Some e)
           | Inr df \<Rightarrow>
               (case column df ''Gene ID'' of
                  Inl e \<Rightarrow> ([], Some e)
                | Inr gene_ids \<Rightarrow>
                    (case gene_loop env email rnd 0 gene_ids ([], []) of
                       (evs, data) \<Rightarrow>
                         (let output_file = output_file_name (os env) input_file
                          in case to_excel env output_file data of
                               Some e \<Rightarrow> (evs @ [To_excel output_file data], Some e)
                             | None \<Rightarrow>
                                 (evs @ [To_excel output_file data, Print_saved output_file],
                                  None))))))"

text \<open>The classes named by the \<open>except\<close> clause of line 105.\<close>

fun is_FileNotFoundError_or_KeyError :: "exn \<Rightarrow> bool" where
  "is_FileNotFoundError_or_KeyError (FileNotFoundError msg) = True"
| "is_FileNotFoundError_or_KeyError (KeyError msg) = True"
| "is_FileNotFoundError_or_KeyError e = False"

text \<open>
  With the handler of lines 105 and 106, which prints the exception and returns: the
  events, and the exception that leaves the function, if any.
\<close>

definition process_gene_list ::
  "'g env \<Rightarrow> (nat \<Rightarrow> rat) \<Rightarrow> string \<Rightarrow> 'g event list \<times> exn option"
where
  "process_gene_list env rnd input_file =
     (case process_try env rnd input_file of
        (evs, Some e) \<Rightarrow>
          if is_FileNotFoundError_or_KeyError e then (evs @ [Print_exn e], None)
          else (evs, Some e)
      | (evs, None) \<Rightarrow> (evs, None))"

text \<open>The tables the program wrote, or tried to write.\<close>

fun written :: "'g event list \<Rightarrow> (string \<times> 'g row list) list" where
  "written [] = []"
| "written (To_excel path rows # evs) = (path, rows) # written evs"
| "written (ev # evs) = written evs"

section \<open>The directory of a path\<close>

text \<open>
  The separators of a platform, the index of the last separator of a path, and the part
  of a path up to and including it: the head that \<open>os.path.split\<close> cuts off, before it
  strips trailing separators. Two paths with the same head lie in the same directory.
\<close>

definition separators :: "os_name \<Rightarrow> char set" where
  "separators name = insert (os_sep name) (set_option (os_altsep name))"

definition last_separator :: "os_name \<Rightarrow> string \<Rightarrow> int" where
  "last_separator name p =
     (case os_altsep name of
        None \<Rightarrow> rfind p (os_sep name)
      | Some a \<Rightarrow> max (rfind p (os_sep name)) (rfind p a))"

definition directory_part :: "os_name \<Rightarrow> string \<Rightarrow> string" where
  "directory_part name p = take (nat (last_separator name p + 1)) p"


section \<open>Sample configuration files and a sample environment\<close>

text \<open>
  Concrete inputs on which the theorems below are instantiated: configuration files, and
  an environment whose gene service knows three genes (one of them on the reverse strand,
  so that its interval ends before it starts) and fails for the other identifiers.
  \<open>stored_value\<close> reads the string a configuration file stores under a key of a section.
\<close>

definition stored_value :: "config_file \<Rightarrow> string \<Rightarrow> string \<Rightarrow> string option" where
  "stored_value f section option =
     (case f of
        Unparseable msg \<Rightarrow> None
      | Parsed d s \<Rightarrow> (case s section of None \<Rightarrow> None | Some opts \<Rightarrow> opts option))"

definition no_files :: filesystem where
  "no_files = Map.empty"

definition percent_file :: config_file where
  "percent_file = Parsed Map.empty [''NCBI'' \<mapsto> [''email'' \<mapsto> ''user%%x@example.org'']]"


definition good_file :: config_file where
  "good_file = Parsed Map.empty [''NCBI'' \<mapsto> [''email'' \<mapsto> ''me@example.org'']]"

definition no_key_file :: config_file where
  "no_key_file = Parsed Map.empty [''NCBI'' \<mapsto> [''api_key'' \<mapsto> ''k'']]"

definition no_section_file :: config_file where
  "no_section_file = Parsed Map.empty [''Entrez'' \<mapsto> [''email'' \<mapsto> ''me@example.org'']]"

definition one_file :: "config_file \<Rightarrow> filesystem" where
  "one_file f = [''config.ini'' \<mapsto> f]"


definition sample_gene_record :: "string \<Rightarrow> string \<Rightarrow> string \<Rightarrow> pyval" where
  "sample_gene_record acc interval_from interval_to =
     PList [PDict [(''Entrezgene_locus'', PList [PDict [
       (''Gene-commentary_products'', PList [PDict [
          (''Gene-commentary_products'', PList [PDict [
             (''Gene-commentary_accession'', PStr acc),
             (''Gene-commentary_genomic-coords'', PList [PDict [
                (''Seq-loc_mix'', PDict [(''Seq-loc-mix'', PList [PDict [
                   (''Seq-loc_int'', PDict [(''Seq-interval'', PDict [])])]])])]])]])]]),
       (''Gene-commentary_seqs'', PList [PDict [
          (''Seq-loc_int'', PDict [(''Seq-interval'', PDict [
             (''Seq-interval_from'', PStr interval_from),
             (''Seq-interval_to'', PStr interval_to)])])]])]])]]"

definition sample_int :: "string \<Rightarrow> exn + int" where
  "sample_int s =
     (case map_of [(''7157'', 7157), (''672'', 672), (''3'', 3), (''4'', 4), (''5'', 5),
                   (''7661779'', 7661779), (''7687538'', 7687538),
                   (''43125363'', 43125363), (''43044294'', 43044294),
                   (''100'', 100), (''200'', 200)] s of
        Some i \<Rightarrow> Inr i
      | None \<Rightarrow> Inl (ValueError s))"

definition sample_efetch_gene :: "string \<Rightarrow> int \<Rightarrow> exn + pyval" where
  "sample_efetch_gene email gid =
     (if gid = 7157 then Inr (sample_gene_record ''NP_000537.3'' ''7661779'' ''7687538'')
      else if gid = 672 then Inr (sample_gene_record ''NP_009225.1'' ''43125363'' ''43044294'')
      else if gid = 5 then Inr (sample_gene_record ''XP_1'' ''100'' ''200'')
      else if gid = 3 then Inr (PList [])
      else Inl (OtherError ''HTTPError'' ''HTTP Error 400: Bad Request''))"

definition sample_efetch_protein :: "string \<Rightarrow> pyval \<Rightarrow> exn + string" where
  "sample_efetch_protein email acc =
     (if acc = PStr ''NP_000537.3'' then Inr (replicate 393 (CHR ''M''))
      else if acc = PStr ''NP_009225.1'' then Inr (replicate 1863 (CHR ''M''))
      else Inl (ValueError ''No records found in handle''))"

definition sample_read_excel :: "string \<Rightarrow> exn + (string \<rightharpoonup> string list)" where
  "sample_read_excel path =
     (if path = ''samples.xlsx'' then
        Inr [''Gene ID'' \<mapsto> [''7157'', ''abc'', ''4'', ''3'', ''5'', ''672'']]
      else if path = ''nocolumn.xlsx'' then Inr [''GeneID'' \<mapsto> [''7157'']]
      else if path = ''broken.xlsx'' then
        Inl (ValueError ''Excel file format cannot be determined'')
      else Inl (FileNotFoundError path))"

definition sample_to_excel :: "string \<Rightarrow> string row list \<Rightarrow> exn option" where
  "sample_to_excel path rows = None"

definition sample_env :: "string env" where
  "sample_env =
     \<lparr>files = one_file good_file, os = posix, int_of_cell = sample_int, int_of_str = sample_int,
      efetch_gene = sample_efetch_gene, efetch_protein = sample_efetch_protein,
      read_excel = sample_read_excel, to_excel = sample_to_excel\<rparr>"

definition no_delay :: "nat \<Rightarrow> rat" where
  "no_delay i = 0"

definition half_delay :: "nat \<Rightarrow> rat" where
  "half_delay i = 1 / 2"


section \<open>Properties\<close>

subsection \<open>The configuration reader\<close>

lemma optionxform_email: "optionxform ''email'' = ''email''"
  by (simp add: optionxform_def lower_char_def)

lemma interpolate_no_percent:
  "CHR ''%'' \<notin> set v \<Longrightarrow> depth \<le> MAX_INTERPOLATION_DEPTH \<Longrightarrow> interpolate_some m depth v = Inr v"
proof (induction v)
  case Nil
  then show ?case by (subst interpolate_some.simps) simp
next
  case (Cons c cs)
  then have ih: "interpolate_some m depth cs = Inr cs" and c: "c \<noteq> CHR ''%''" by auto
  show ?case
    by (subst interpolate_some.simps) (use Cons.prems(2) ih c in simp)
qed

lemma interpolate_plain:
  "depth \<le> MAX_INTERPOLATION_DEPTH \<Longrightarrow> c \<noteq> CHR ''%'' \<Longrightarrow>
   interpolate_some m depth (c # cs) =
     (case interpolate_some m depth cs of Inl e \<Rightarrow> Inl e | Inr out \<Rightarrow> Inr (c # out))"
  by (subst interpolate_some.simps) simp

lemma interpolate_percent:
  "depth \<le> MAX_INTERPOLATION_DEPTH \<Longrightarrow>
   interpolate_some m depth (CHR ''%'' # CHR ''%'' # r) =
     (case interpolate_some m depth r of Inl e \<Rightarrow> Inl e | Inr out \<Rightarrow> Inr (CHR ''%'' # out))"
  by (subst interpolate_some.simps) simp

lemma before_get_no_percent: "CHR ''%'' \<notin> set v \<Longrightarrow> before_get m v = Inr v"
  by (simp add: before_get_def interpolate_no_percent MAX_INTERPOLATION_DEPTH_def)

lemma merge_sections_empty: "merge_sections Map.empty s = s"
  by (rule ext) (simp add: merge_sections_def split: option.splits)

lemma config_read_fresh_parsed:
  "fs p = Some (Parsed d s) \<Longrightarrow> config_read fs ConfigParser p = Inr \<lparr>defaults = d, sections = s\<rparr>"
  by (simp add: config_read_def ConfigParser_def merge_sections_empty)

lemma read_email_try_missing_file: "fs p = None \<Longrightarrow> read_email_try fs p = Inl (KeyError ''NCBI'')"
  by (simp add: read_email_try_def config_read_def parser_getitem_def has_section_def
      ConfigParser_def default_section_def)

lemma read_email_try_no_section:
  "fs p = Some (Parsed d s) \<Longrightarrow> s ''NCBI'' = None \<Longrightarrow> read_email_try fs p = Inl (KeyError ''NCBI'')"
  by (simp add: read_email_try_def config_read_fresh_parsed parser_getitem_def has_section_def
      default_section_def)

lemma read_email_try_no_key:
  "fs p = Some (Parsed d s) \<Longrightarrow> s ''NCBI'' = Some opts \<Longrightarrow> opts ''email'' = None \<Longrightarrow> d ''email'' = None
   \<Longrightarrow> read_email_try fs p = Inl (KeyError ''email'')"
  by (simp add: read_email_try_def config_read_fresh_parsed parser_getitem_def has_section_def
      default_section_def proxy_getitem_def has_option_def optionxform_email)

lemma read_email_try_value:
  "fs p = Some (Parsed d s) \<Longrightarrow> s ''NCBI'' = Some opts \<Longrightarrow> opts ''email'' = Some v
   \<Longrightarrow> read_email_try fs p = before_get (d ++ opts) v"
  by (simp add: read_email_try_def config_read_fresh_parsed parser_getitem_def has_section_def
      default_section_def proxy_getitem_def has_option_def optionxform_email config_get_def
      unify_values_def)


lemma read_email_key_error:
  "read_email_try fs p = Inl (KeyError k) \<Longrightarrow>
   read_email_from_config fs p = Inl (KeyError email_key_missing_msg)"
  by (simp add: read_email_from_config_def)

lemma read_email_value:
  "read_email_try fs p = Inr v \<Longrightarrow> read_email_from_config fs p = Inr v"
  by (simp add: read_email_from_config_def)

lemma interpolate_not_builtin:
  "interpolate_some m depth v = Inl e \<Longrightarrow> \<exists>cls msg. e = OtherError cls msg"
proof (induction m depth v arbitrary: e rule: interpolate_some.induct)
  case (1 m depth rest)
  note ih = "1.IH"
  note p = "1.prems" [unfolded interpolate_some.simps [of m depth rest]]
  show ?case
  proof (cases "MAX_INTERPOLATION_DEPTH < depth")
    case True
    with p show ?thesis by auto
  next
    case nd: False
    show ?thesis
    proof (cases rest)
      case Nil
      with p nd show ?thesis by auto
    next
      case (Cons c cs)
      show ?thesis
      proof (cases "c = CHR ''%''")
        case False
        with p nd Cons have "interpolate_some m depth cs = Inl e"
          by (simp split: sum.splits)
        with ih(1) [OF nd Cons False] show ?thesis by blast
      next
        case pc: True
        show ?thesis
        proof (cases cs)
          case Nil
          with p nd Cons pc show ?thesis by auto
        next
          case (Cons d r)
          note cs = this
          show ?thesis
          proof (cases "d = CHR ''%''")
            case True
            with p nd \<open>rest = c # cs\<close> pc cs have "interpolate_some m depth r = Inl e"
              by (simp split: sum.splits)
            with ih(2) [OF nd \<open>rest = c # cs\<close> _ cs True] pc show ?thesis by blast
          next
            case dp: False
            show ?thesis
            proof (cases "d = CHR ''(''")
              case False
              with p nd \<open>rest = c # cs\<close> pc cs dp show ?thesis by auto
            next
              case paren: True
              show ?thesis
              proof (cases "match_key r")
                case None
                with p nd \<open>rest = c # cs\<close> pc cs dp paren show ?thesis by auto
              next
                case (Some nr)
                obtain name rest' where nr: "nr = (name, rest')" by (cases nr)
                show ?thesis
                proof (cases "m (optionxform name)")
                  case None
                  with p nd \<open>rest = c # cs\<close> pc cs dp paren Some nr show ?thesis by auto
                next
                  case sv: (Some v)
                  let ?inner = "if CHR ''%'' \<in> set v then interpolate_some m (depth + 1) v else Inr v"
                  from p nd \<open>rest = c # cs\<close> pc cs dp paren Some nr sv
                  have q: "(case ?inner of Inl e \<Rightarrow> Inl e
                            | Inr a \<Rightarrow> (case interpolate_some m depth rest' of
                                         Inl e \<Rightarrow> Inl e | Inr b \<Rightarrow> Inr (a @ b))) = Inl e"
                    by simp
                  show ?thesis
                  proof (cases ?inner)
                    case (Inl x)
                    with q have "x = e" by simp
                    with Inl have v: "CHR ''%'' \<in> set v"
                      and e: "interpolate_some m (depth + 1) v = Inl e"
                      by (simp_all split: if_splits)
                    show ?thesis
                      using ih(3) nd \<open>rest = c # cs\<close> pc cs dp paren Some nr sv v e by blast
                  next
                    case (Inr a)
                    with q have e: "interpolate_some m depth rest' = Inl e"
                      by (simp split: sum.splits)
                    show ?thesis
                      using ih(4) nd \<open>rest = c # cs\<close> pc cs dp paren Some nr sv Inr e by blast
                  qed
                qed
              qed
            qed
          qed
        qed
      qed
    qed
  qed
qed

lemma read_email_try_never_fnf: "read_email_try fs p \<noteq> Inl (FileNotFoundError msg)"
proof
  assume a: "read_email_try fs p = Inl (FileNotFoundError msg)"
  then show False
    unfolding read_email_try_def config_read_def parser_getitem_def proxy_getitem_def
      config_get_def unify_values_def before_get_def
    by (auto split: option.splits config_file.splits if_splits sum.splits
        dest: interpolate_not_builtin)
qed

lemma read_email_never_FileNotFoundError:
  "read_email_from_config fs p \<noteq> Inl (FileNotFoundError msg)"
  using read_email_try_never_fnf [of fs p]
  by (auto simp: read_email_from_config_def split: sum.splits exn.splits)

text \<open>
  C2: \<open>ConfigParser.read\<close> skips a file that it cannot open, so for a
  configuration file that does not exist the parser stays empty, \<open>config['NCBI']\<close>
  raises \<open>KeyError\<close>, and \<open>read_email_from_config\<close> fails with the \<open>KeyError\<close> of
  line 33, not with the \<open>FileNotFoundError\<close> its docstring announces: the handler of
  line 27 is never entered.
\<close>

theorem missing_config_raises_KeyError:
  assumes "fs config_file = None"
  shows "read_email_from_config fs config_file = Inl (KeyError email_key_missing_msg)"
  using read_email_try_missing_file [of fs config_file] assms
  by (simp add: read_email_key_error)

theorem missing_config_raises_KeyError_witness:
  "read_email_from_config no_files ''config.ini'' = Inl (KeyError email_key_missing_msg)"
  by (rule missing_config_raises_KeyError) (simp add: no_files_def)




text \<open>
  C6: For a configuration file whose section \<open>NCBI\<close> stores a string without
  the character \<open>%\<close> under the key \<open>email\<close>, \<open>read_email_from_config\<close> returns
  exactly that string. (A \<open>ConfigParser()\<close> interpolates the values it hands out:
  with a \<open>%\<close> in the value, the result differs or the lookup fails; see the
  counterexample.)
\<close>

theorem returns_stored_email:
  assumes "fs config_file = Some f" and "stored_value f ''NCBI'' ''email'' = Some v"
    and "CHR ''%'' \<notin> set v"
  shows "read_email_from_config fs config_file = Inr v"
proof -
  from assms(2) obtain d s opts where f: "f = Parsed d s" and s: "s ''NCBI'' = Some opts"
    and v: "opts ''email'' = Some v"
    by (auto simp: stored_value_def split: config_file.splits option.splits)
  have "read_email_try fs config_file = Inr v"
    using read_email_try_value [of fs config_file d s opts v] assms(1,3) f s v
    by (simp add: before_get_no_percent)
  then show ?thesis by (rule read_email_value)
qed

theorem returns_stored_email_witness:
  "read_email_from_config (one_file good_file) ''config.ini'' = Inr ''me@example.org''"
  using returns_stored_email [of "one_file good_file" "''config.ini''" good_file "''me@example.org''"]
  by (simp add: one_file_def good_file_def stored_value_def)

text \<open>
  The statement of the specification fails for a stored value with \<open>%%\<close>, which
  is handed out as a single \<open>%\<close>.
\<close>

theorem returns_stored_email_counterexample:
  "one_file percent_file ''config.ini'' = Some percent_file \<and>
   stored_value percent_file ''NCBI'' ''email'' = Some ''user%%x@example.org'' \<and>
   read_email_from_config (one_file percent_file) ''config.ini'' = Inr ''user%x@example.org''"
proof -
  have "before_get m ''user%%x@example.org'' = Inr ''user%x@example.org''" for m
    by (simp add: before_get_def interpolate_plain interpolate_percent interpolate_no_percent
        MAX_INTERPOLATION_DEPTH_def)
  then have "read_email_try (one_file percent_file) ''config.ini'' = Inr ''user%x@example.org''"
    using read_email_try_value [of "one_file percent_file" "''config.ini''" Map.empty
        "[''NCBI'' \<mapsto> [''email'' \<mapsto> ''user%%x@example.org'']]"
        "[''email'' \<mapsto> ''user%%x@example.org'']" "''user%%x@example.org''"]
    by (simp add: one_file_def percent_file_def)
  then show ?thesis
    by (simp add: read_email_value one_file_def stored_value_def percent_file_def)
qed

text \<open>
  A single \<open>%\<close> in the stored value makes the lookup fail with an exception that neither
  handler catches.
\<close>

lemma percent_email_raises:
  "read_email_from_config
     (one_file (Parsed Map.empty [''NCBI'' \<mapsto> [''email'' \<mapsto> ''50%@example.org'']]))
     ''config.ini'' =
   Inl (OtherError ''InterpolationSyntaxError'' ''%@example.org'')"
proof -
  have "before_get m ''50%@example.org'' =
          Inl (OtherError ''InterpolationSyntaxError'' ''%@example.org'')" for m
    by (simp add: before_get_def interpolate_plain MAX_INTERPOLATION_DEPTH_def)
       (simp add: interpolate_some.simps [of _ _ "''%@example.org''"]
          MAX_INTERPOLATION_DEPTH_def)
  then have "read_email_try
      (one_file (Parsed Map.empty [''NCBI'' \<mapsto> [''email'' \<mapsto> ''50%@example.org'']]))
      ''config.ini'' = Inl (OtherError ''InterpolationSyntaxError'' ''%@example.org'')"
    using read_email_try_value [of
        "one_file (Parsed Map.empty [''NCBI'' \<mapsto> [''email'' \<mapsto> ''50%@example.org'']])"
        "''config.ini''" Map.empty "[''NCBI'' \<mapsto> [''email'' \<mapsto> ''50%@example.org'']]"
        "[''email'' \<mapsto> ''50%@example.org'']" "''50%@example.org''"]
    by (simp add: one_file_def)
  then show ?thesis
    by (simp add: read_email_from_config_def)
qed

text \<open>
  C10: For a configuration file that parses and has no section \<open>NCBI\<close>,
  \<open>read_email_from_config\<close> fails with \<open>KeyError\<close> and the message of line 33, the same
  failure as for a file whose section \<open>NCBI\<close> lacks the key \<open>email\<close>.
\<close>

theorem missing_section_same_error:
  assumes "fs config_file = Some (Parsed d s)" and "s ''NCBI'' = None"
    and "fs' config_file' = Some (Parsed d' s')" and "s' ''NCBI'' = Some opts"
    and "opts ''email'' = None" and "d' ''email'' = None"
  shows "read_email_from_config fs config_file = Inl (KeyError email_key_missing_msg) \<and>
         read_email_from_config fs config_file = read_email_from_config fs' config_file'"
  using read_email_try_no_section [of fs config_file d s]
    read_email_try_no_key [of fs' config_file' d' s' opts] assms
  by (simp add: read_email_key_error)

theorem missing_section_same_error_witness:
  "read_email_from_config (one_file no_section_file) ''config.ini'' = Inl (KeyError email_key_missing_msg) \<and>
   read_email_from_config (one_file no_section_file) ''config.ini'' =
     read_email_from_config (one_file no_key_file) ''config.ini''"
  by (rule missing_section_same_error [of "one_file no_section_file" "''config.ini''" Map.empty
        "[''Entrez'' \<mapsto> [''email'' \<mapsto> ''me@example.org'']]"
        "one_file no_key_file" "''config.ini''" Map.empty
        "[''NCBI'' \<mapsto> [''api_key'' \<mapsto> ''k'']]" "[''api_key'' \<mapsto> ''k'']"])
     (simp_all add: one_file_def no_section_file_def no_key_file_def)

subsection \<open>The record fetcher and the batch processor\<close>

lemma sample_extract_tp53:
  "extract_gene_fields sample_int (sample_gene_record ''NP_000537.3'' ''7661779'' ''7687538'')
     = Inr (PStr ''NP_000537.3'', 25759)"
  by (simp add: extract_gene_fields_def sample_gene_record_def seq_interval_def sample_int_def)

lemmas sample_defs = sample_env_def sample_int_def sample_efetch_gene_def sample_efetch_protein_def
  sample_read_excel_def sample_to_excel_def sample_gene_record_def

lemma written_append: "written (xs @ ys) = written xs @ written ys"
  by (induction xs rule: written.induct) simp_all

lemma written_fetch: "written (fst (fetch_gene_data env email delay gene_id)) = []"
  by (simp add: fetch_gene_data_def fetch_try_def split: sum.splits prod.splits)

lemma fetch_result_no_delay:
  "snd (fetch_gene_data env email delay gene_id) = snd (fetch_gene_data env email delay' gene_id)"
  by (simp add: fetch_gene_data_def fetch_try_def split: sum.splits prod.splits)

lemma gene_loop_rows:
  "snd (gene_loop env email rnd i gene_ids (evs, data)) =
     data @ map (\<lambda>g. case snd (fetch_gene_data env email 0 g) of
                       (accession, gene_len, protein_len) \<Rightarrow>
                         \<lparr>Gene_ID = g, Accession = accession, Gene_Length = gene_len,
                          Protein_Length = protein_len\<rparr>) gene_ids"
proof (induction gene_ids arbitrary: i evs data)
  case Nil
  then show ?case by simp
next
  case (Cons g gs)
  obtain ev a gl pl where f: "fetch_gene_data env email (rnd i) g = (ev, a, gl, pl)"
    by (metis prod_cases4)
  have "snd (fetch_gene_data env email 0 g) = (a, gl, pl)"
    using fetch_result_no_delay [of env email 0 g "rnd i"] f by simp
  then show ?case
    using Cons.IH [of "Suc i" "evs @ ev"] f by simp
qed

lemma gene_loop_written:
  "written (fst (gene_loop env email rnd i gene_ids (evs, data))) = written evs"
proof (induction gene_ids arbitrary: i evs data)
  case Nil
  then show ?case by simp
next
  case (Cons g gs)
  obtain ev a gl pl where f: "fetch_gene_data env email (rnd i) g = (ev, a, gl, pl)"
    by (metis prod_cases4)
  have "written ev = []"
    using written_fetch [of env email "rnd i" g] f by simp
  then show ?case
    using Cons.IH [of "Suc i" "evs @ ev"] f by (simp add: written_append)
qed

lemma gene_loop_ids:
  "map Gene_ID (snd (gene_loop env email rnd i gene_ids (evs, data))) = map Gene_ID data @ gene_ids"
  by (simp add: gene_loop_rows split: prod.splits) (induction gene_ids, simp_all split: prod.splits)

lemma sample_env_email:
  "read_email_from_config (files sample_env) ''config.ini'' = Inr ''me@example.org''"
proof -
  have "read_email_try (one_file good_file) ''config.ini''
          = before_get (Map.empty ++ [''email'' \<mapsto> ''me@example.org'']) ''me@example.org''"
    by (rule read_email_try_value [of "one_file good_file" "''config.ini''" Map.empty
          "[''NCBI'' \<mapsto> [''email'' \<mapsto> ''me@example.org'']]"])
       (simp_all add: one_file_def good_file_def)
  then show ?thesis
    by (simp add: sample_env_def before_get_no_percent read_email_value)
qed

lemma process_try_loop:
  assumes "read_email_from_config (files env) ''config.ini'' = Inr email"
    and "read_excel env input_file = Inr df"
    and "df ''Gene ID'' = Some gene_ids"
    and "gene_loop env email rnd 0 gene_ids ([], []) = (evs, data)"
  shows "process_try env rnd input_file =
           (let output_file = output_file_name (os env) input_file
            in case to_excel env output_file data of
                 Some e \<Rightarrow> (evs @ [To_excel output_file data], Some e)
               | None \<Rightarrow> (evs @ [To_excel output_file data, Print_saved output_file], None))"
  using assms by (simp add: process_try_def column_def)

lemma process_written:
  assumes "read_email_from_config (files env) ''config.ini'' = Inr email"
    and "read_excel env input_file = Inr df"
    and "df ''Gene ID'' = Some gene_ids"
  shows "written (fst (process_gene_list env rnd input_file)) =
           [(output_file_name (os env) input_file,
             snd (gene_loop env email rnd 0 gene_ids ([], [])))]"
proof -
  obtain evs data where l: "gene_loop env email rnd 0 gene_ids ([], []) = (evs, data)"
    by (cases "gene_loop env email rnd 0 gene_ids ([], [])")
  have w: "written evs = []"
    using gene_loop_written [of env email rnd 0 gene_ids "[]" "[]"] l by simp
  show ?thesis
    using w l
    by (simp add: process_gene_list_def process_try_loop [OF assms l] Let_def written_append
        split: option.splits)
qed

text \<open>
  C1: When the configuration is read and the input table has a column
  \<open>Gene ID\<close> of \<open>N\<close> cells, \<open>process_gene_list\<close> hands exactly one table to
  \<open>to_excel\<close>, under the output file name; it has \<open>N\<close> rows, and the \<open>Gene ID\<close>
  fields of its rows are the cells of the input column, in the same order and unchanged
  (also where the fetch for a cell failed).
\<close>

theorem output_rows_match_input:
  assumes "read_email_from_config (files env) ''config.ini'' = Inr email"
    and "read_excel env input_file = Inr df"
    and "df ''Gene ID'' = Some gene_ids"
  shows "\<exists>data. written (fst (process_gene_list env rnd input_file)) =
                  [(output_file_name (os env) input_file, data)] \<and>
                length data = length gene_ids \<and> map Gene_ID data = gene_ids"
proof -
  let ?data = "snd (gene_loop env email rnd 0 gene_ids ([], []))"
  have ids: "map Gene_ID ?data = gene_ids"
    using gene_loop_ids [of env email rnd 0 gene_ids "[]" "[]"] by simp
  then have "length ?data = length gene_ids"
    by (metis length_map)
  with ids process_written [OF assms] show ?thesis by blast
qed

theorem output_rows_match_input_witness:
  "\<exists>data. written (fst (process_gene_list sample_env half_delay ''samples.xlsx'')) =
            [(output_file_name posix ''samples.xlsx'', data)] \<and>
          length data = 6 \<and>
          map Gene_ID data = [''7157'', ''abc'', ''4'', ''3'', ''5'', ''672'']"
proof -
  let ?ids = "[''7157'', ''abc'', ''4'', ''3'', ''5'', ''672'']"
  have r: "read_excel sample_env ''samples.xlsx'' = Inr [''Gene ID'' \<mapsto> ?ids]"
    by (simp add: sample_env_def sample_read_excel_def)
  have c: "[''Gene ID'' \<mapsto> ?ids] ''Gene ID'' = Some ?ids"
    by simp
  have o: "os sample_env = posix"
    by (simp add: sample_env_def)
  have six: "length ?ids = 6" by simp
  have "\<exists>data. written (fst (process_gene_list sample_env half_delay ''samples.xlsx'')) =
                 [(output_file_name (os sample_env) ''samples.xlsx'', data)] \<and>
               length data = length ?ids \<and> map Gene_ID data = ?ids"
    by (rule output_rows_match_input [of sample_env "''me@example.org''" "''samples.xlsx''"
          "[''Gene ID'' \<mapsto> ?ids]" ?ids half_delay, OF sample_env_email r c])
  then show ?thesis
    unfolding o six .
qed

lemma fetch_try_int_fails:
  "int_of_cell env gene_id = Inl e \<Longrightarrow>
   fetch_try env email delay gene_id = ([Sleep delay], Inl gene_id, Inl e)"
  by (simp add: fetch_try_def)

lemma fetch_try_lookup_fails:
  "int_of_cell env gene_id = Inr gid \<Longrightarrow> efetch_gene env email gid = Inl e \<Longrightarrow>
   fetch_try env email delay gene_id = ([Sleep delay], Inr gid, Inl e)"
  by (simp add: fetch_try_def)

lemma fetch_try_navigation_fails:
  "int_of_cell env gene_id = Inr gid \<Longrightarrow> efetch_gene env email gid = Inr record \<Longrightarrow>
   extract_gene_fields (int_of_str env) record = Inl e \<Longrightarrow>
   fetch_try env email delay gene_id = ([Sleep delay], Inr gid, Inl e)"
  by (simp add: fetch_try_def)

lemma fetch_try_protein_fails:
  "int_of_cell env gene_id = Inr gid \<Longrightarrow> efetch_gene env email gid = Inr record \<Longrightarrow>
   extract_gene_fields (int_of_str env) record = Inr (acc, gene_length) \<Longrightarrow>
   efetch_protein env email acc = Inl e \<Longrightarrow>
   fetch_try env email delay gene_id = ([Sleep delay, Print_gene_done gid gene_length], Inr gid, Inl e)"
  by (simp add: fetch_try_def)

lemma fetch_gene_data_caught:
  "fetch_try env email delay gene_id = (evs, bound, Inl e) \<Longrightarrow>
   fetch_gene_data env email delay gene_id = (evs @ [Print_error bound e], (None, None, None))"
  by (simp add: fetch_gene_data_def)

lemma sample_fetch_try_3:
  "fetch_try sample_env ''me@example.org'' (half_delay 0) ''3'' =
     ([Sleep (1 / 2)], Inr 3, Inl (IndexError ''list index out of range''))"
  by (simp add: fetch_try_def sample_defs half_delay_def extract_gene_fields_def)

lemma sample_int_3: "int_of_cell sample_env ''3'' = Inr 3"
  by (simp add: sample_env_def sample_int_def)

lemma sample_gene_3: "efetch_gene sample_env ''me@example.org'' 3 = Inr (PList [])"
  by (simp add: sample_env_def sample_efetch_gene_def)

lemma sample_extract_3:
  "extract_gene_fields (int_of_str sample_env) (PList []) =
     Inl (IndexError ''list index out of range'')"
  by (simp add: extract_gene_fields_def)

text \<open>
  C4: When the configuration is read and \<open>read_excel\<close> raises, the exception
  leaves \<open>process_gene_list\<close> unless it is a \<open>FileNotFoundError\<close> or a
  \<open>KeyError\<close>: these two the handler of line 105 catches, prints, and the function
  returns normally with nothing written. A table without the column \<open>Gene ID\<close> raises
  \<open>KeyError\<close> at line 93, which is caught in the same way.
\<close>

theorem input_failures_caught_or_propagated:
  assumes "read_email_from_config (files env) ''config.ini'' = Inr email"
  shows "(read_excel env input_file = Inl e \<longrightarrow>
            process_gene_list env rnd input_file =
              (if is_FileNotFoundError_or_KeyError e then ([Print_exn e], None)
               else ([], Some e))) \<and>
         (read_excel env input_file = Inr df \<longrightarrow> df ''Gene ID'' = None \<longrightarrow>
            process_gene_list env rnd input_file = ([Print_exn (KeyError ''Gene ID'')], None))"
  using assms by (simp add: process_gene_list_def process_try_def column_def)

lemma sample_read_missing:
  "read_excel sample_env ''missing.xlsx'' = Inl (FileNotFoundError ''missing.xlsx'')"
  by (simp add: sample_env_def sample_read_excel_def)

lemma sample_read_broken:
  "read_excel sample_env ''broken.xlsx'' =
     Inl (ValueError ''Excel file format cannot be determined'')"
  by (simp add: sample_env_def sample_read_excel_def)

lemma sample_read_nocolumn:
  "read_excel sample_env ''nocolumn.xlsx'' = Inr [''GeneID'' \<mapsto> [''7157'']]"
  by (simp add: sample_env_def sample_read_excel_def)

theorem input_failures_caught_or_propagated_witness:
  "process_gene_list sample_env no_delay ''missing.xlsx'' =
     ([Print_exn (FileNotFoundError ''missing.xlsx'')], None) \<and>
   process_gene_list sample_env no_delay ''broken.xlsx'' =
     ([], Some (ValueError ''Excel file format cannot be determined'')) \<and>
   process_gene_list sample_env no_delay ''nocolumn.xlsx'' =
     ([Print_exn (KeyError ''Gene ID'')], None)"
proof (intro conjI)
  show "process_gene_list sample_env no_delay ''missing.xlsx'' =
          ([Print_exn (FileNotFoundError ''missing.xlsx'')], None)"
    using input_failures_caught_or_propagated [OF sample_env_email,
        of "''missing.xlsx''" "FileNotFoundError ''missing.xlsx''" no_delay Map.empty]
      sample_read_missing
    by simp
  show "process_gene_list sample_env no_delay ''broken.xlsx'' =
          ([], Some (ValueError ''Excel file format cannot be determined''))"
    using input_failures_caught_or_propagated [OF sample_env_email,
        of "''broken.xlsx''" "ValueError ''Excel file format cannot be determined''" no_delay
          Map.empty]
      sample_read_broken
    by simp
  show "process_gene_list sample_env no_delay ''nocolumn.xlsx'' =
          ([Print_exn (KeyError ''Gene ID'')], None)"
    using input_failures_caught_or_propagated [OF sample_env_email,
        of "''nocolumn.xlsx''" "KeyError []" no_delay "[''GeneID'' \<mapsto> [''7157'']]"]
      sample_read_nocolumn
    by simp
qed

text \<open>
  The statement of the specification fails: a missing input file and a missing
  column end in the handler of line 105, and no exception leaves the function.
\<close>

theorem input_failures_counterexample:
  "read_excel sample_env ''missing.xlsx'' = Inl (FileNotFoundError ''missing.xlsx'') \<and>
   snd (process_gene_list sample_env no_delay ''missing.xlsx'') = None \<and>
   read_excel sample_env ''nocolumn.xlsx'' = Inr [''GeneID'' \<mapsto> [''7157'']] \<and>
   column [''GeneID'' \<mapsto> [''7157'']] ''Gene ID'' = Inl (KeyError ''Gene ID'') \<and>
   snd (process_gene_list sample_env no_delay ''nocolumn.xlsx'') = None"
  using sample_env_email sample_read_missing sample_read_nocolumn
  by (simp add: process_gene_list_def process_try_def column_def)

lemma extract_gene_fields_length:
  assumes "extract_gene_fields to_int record = Inr (acc, gene_length)"
  shows "\<exists>t f gene_end gene_start.
           navigate record (seq_interval @ [Key ''Seq-interval_to'']) = Inr t \<and>
           py_int to_int t = Inr gene_end \<and>
           navigate record (seq_interval @ [Key ''Seq-interval_from'']) = Inr f \<and>
           py_int to_int f = Inr gene_start \<and>
           gene_length = \<bar>gene_end - gene_start\<bar>"
proof -
  note a = assms [unfolded extract_gene_fields_def]
  obtain locus where 1: "navigate record [At0, Key ''Entrezgene_locus'', At0] = Inr locus"
    using a by (cases "navigate record [At0, Key ''Entrezgene_locus'', At0]") simp_all
  note a = a [unfolded 1 bind_exn.simps]
  obtain product where 2: "navigate locus [Key ''Gene-commentary_products'', At0,
                               Key ''Gene-commentary_products'', At0] = Inr product"
    using a by (cases "navigate locus [Key ''Gene-commentary_products'', At0,
                               Key ''Gene-commentary_products'', At0]") simp_all
  note a = a [unfolded 2 bind_exn.simps]
  obtain pa where 3: "navigate product [Key ''Gene-commentary_accession''] = Inr pa"
    using a by (cases "navigate product [Key ''Gene-commentary_accession'']") simp_all
  note a = a [unfolded 3 bind_exn.simps]
  obtain gc where 4: "navigate product [Key ''Gene-commentary_genomic-coords'', At0, Key ''Seq-loc_mix'',
                                 Key ''Seq-loc-mix'', At0, Key ''Seq-loc_int'',
                                 Key ''Seq-interval''] = Inr gc"
    using a by (cases "navigate product [Key ''Gene-commentary_genomic-coords'', At0, Key ''Seq-loc_mix'',
                                 Key ''Seq-loc-mix'', At0, Key ''Seq-loc_int'',
                                 Key ''Seq-interval'']") simp_all
  note a = a [unfolded 4 bind_exn.simps]
  obtain t where 5: "navigate record (seq_interval @ [Key ''Seq-interval_to'']) = Inr t"
    using a by (cases "navigate record (seq_interval @ [Key ''Seq-interval_to''])") simp_all
  note a = a [unfolded 5 bind_exn.simps]
  obtain gene_end where 6: "py_int to_int t = Inr gene_end"
    using a by (cases "py_int to_int t") simp_all
  note a = a [unfolded 6 bind_exn.simps]
  obtain f where 7: "navigate record (seq_interval @ [Key ''Seq-interval_from'']) = Inr f"
    using a by (cases "navigate record (seq_interval @ [Key ''Seq-interval_from''])") simp_all
  note a = a [unfolded 7 bind_exn.simps]
  obtain gene_start where 8: "py_int to_int f = Inr gene_start"
    using a by (cases "py_int to_int f") simp_all
  note a = a [unfolded 8 bind_exn.simps]
  from a have "gene_length = \<bar>gene_end - gene_start\<bar>" by simp
  with 5 6 7 8 show ?thesis by (intro exI conjI)
qed

text \<open>
  Conversely to the theorem below: a gene length that \<open>fetch_gene_data\<close> returns is the
  absolute difference of the two ends read from the record.
\<close>

lemma returned_gene_length_is_abs_difference:
  assumes "snd (fetch_gene_data env email delay gene_id) = (accession, Some gene_length, protein_length)"
  shows "\<exists>gid record t f gene_end gene_start.
           int_of_cell env gene_id = Inr gid \<and>
           efetch_gene env email gid = Inr record \<and>
           navigate record (seq_interval @ [Key ''Seq-interval_to'']) = Inr t \<and>
           py_int (int_of_str env) t = Inr gene_end \<and>
           navigate record (seq_interval @ [Key ''Seq-interval_from'']) = Inr f \<and>
           py_int (int_of_str env) f = Inr gene_start \<and>
           gene_length = \<bar>gene_end - gene_start\<bar>"
proof -
  obtain gid where g: "int_of_cell env gene_id = Inr gid"
    using assms
    by (cases "int_of_cell env gene_id") (simp_all add: fetch_gene_data_def fetch_try_def)
  obtain gene_record where r: "efetch_gene env email gid = Inr gene_record"
    using assms g
    by (cases "efetch_gene env email gid") (simp_all add: fetch_gene_data_def fetch_try_def)
  obtain acc gl where x: "extract_gene_fields (int_of_str env) gene_record = Inr (acc, gl)"
    using assms g r
    by (cases "extract_gene_fields (int_of_str env) gene_record")
       (auto simp: fetch_gene_data_def fetch_try_def)
  have "gl = gene_length"
    using assms g r x
    by (cases "efetch_protein env email acc") (simp_all add: fetch_gene_data_def fetch_try_def)
  with extract_gene_fields_length [OF x] g r show ?thesis
    by (elim exE conjE) (intro exI conjI, assumption+, simp)
qed

lemma extract_gene_fields_value:
  assumes "navigate gene_record [At0, Key ''Entrezgene_locus'', At0] = Inr locus"
    and "navigate locus [Key ''Gene-commentary_products'', At0,
                         Key ''Gene-commentary_products'', At0] = Inr product"
    and "navigate product [Key ''Gene-commentary_accession''] = Inr acc"
    and "navigate product [Key ''Gene-commentary_genomic-coords'', At0, Key ''Seq-loc_mix'',
                           Key ''Seq-loc-mix'', At0, Key ''Seq-loc_int'',
                           Key ''Seq-interval''] = Inr genomic_coords"
    and "navigate gene_record (seq_interval @ [Key ''Seq-interval_to'']) = Inr t"
    and "py_int to_int t = Inr gene_end"
    and "navigate gene_record (seq_interval @ [Key ''Seq-interval_from'']) = Inr f"
    and "py_int to_int f = Inr gene_start"
  shows "extract_gene_fields to_int gene_record = Inr (acc, \<bar>gene_end - gene_start\<bar>)"
  unfolding extract_gene_fields_def assms bind_exn.simps ..

text \<open>
  C7: For every gene record in which the navigation of lines 59 to 65 succeeds
  and whose two interval ends convert to the integers \<open>gene_end\<close> and \<open>gene_start\<close>,
  whichever of the two is larger, the gene length computed at line 66 is
  \<open>\<bar>gene_end - gene_start\<bar>\<close>: it is the value \<open>fetch_gene_data\<close> prints, and the
  value it returns when the protein lookup succeeds.
\<close>

theorem gene_length_is_abs_difference:
  assumes "int_of_cell env gene_id = Inr gid"
    and "efetch_gene env email gid = Inr gene_record"
    and "navigate gene_record [At0, Key ''Entrezgene_locus'', At0] = Inr locus"
    and "navigate locus [Key ''Gene-commentary_products'', At0,
                         Key ''Gene-commentary_products'', At0] = Inr product"
    and "navigate product [Key ''Gene-commentary_accession''] = Inr acc"
    and "navigate product [Key ''Gene-commentary_genomic-coords'', At0, Key ''Seq-loc_mix'',
                           Key ''Seq-loc-mix'', At0, Key ''Seq-loc_int'',
                           Key ''Seq-interval''] = Inr genomic_coords"
    and "navigate gene_record (seq_interval @ [Key ''Seq-interval_to'']) = Inr t"
    and "py_int (int_of_str env) t = Inr gene_end"
    and "navigate gene_record (seq_interval @ [Key ''Seq-interval_from'']) = Inr f"
    and "py_int (int_of_str env) f = Inr gene_start"
  shows "extract_gene_fields (int_of_str env) gene_record =
           Inr (acc, \<bar>gene_end - gene_start\<bar>) \<and>
         fetch_gene_data env email delay gene_id =
           (case efetch_protein env email acc of
              Inl e \<Rightarrow>
                ([Sleep delay, Print_gene_done gid \<bar>gene_end - gene_start\<bar>,
                  Print_error (Inr gid) e],
                 (None, None, None))
            | Inr seq \<Rightarrow>
                ([Sleep delay, Print_gene_done gid \<bar>gene_end - gene_start\<bar>,
                  Print_protein_done acc (length seq)],
                 (Some acc, Some \<bar>gene_end - gene_start\<bar>, Some (length seq))))"
proof -
  have x: "extract_gene_fields (int_of_str env) gene_record =
             Inr (acc, \<bar>gene_end - gene_start\<bar>)"
    by (rule extract_gene_fields_value [OF assms(3-10)])
  show ?thesis
    by (simp add: x fetch_gene_data_def fetch_try_def assms(1,2) split: sum.splits)
qed

text \<open>
  The gene of the specification's worked example: identifier 7157, accession NP_000537.3,
  interval from 7661779 to 7687538, 393 residues.
\<close>

lemma sample_fetch_7157:
  "snd (fetch_gene_data sample_env ''me@example.org'' 0 ''7157'') =
     (Some (PStr ''NP_000537.3''), Some 25759, Some 393)"
  by (simp add: fetch_gene_data_def fetch_try_def sample_defs extract_gene_fields_def
      seq_interval_def)

lemma sample_fetch_672:
  "snd (fetch_gene_data sample_env ''me@example.org'' 0 ''672'') =
     (Some (PStr ''NP_009225.1''), Some 81069, Some 1863)"
  by (simp add: fetch_gene_data_def fetch_try_def sample_defs extract_gene_fields_def
      seq_interval_def)

lemma sample_navigate:
  "navigate (sample_gene_record acc a b) [At0, Key ''Entrezgene_locus'', At0] =
     Inr (PDict [
       (''Gene-commentary_products'', PList [PDict [
          (''Gene-commentary_products'', PList [PDict [
             (''Gene-commentary_accession'', PStr acc),
             (''Gene-commentary_genomic-coords'', PList [PDict [
                (''Seq-loc_mix'', PDict [(''Seq-loc-mix'', PList [PDict [
                   (''Seq-loc_int'', PDict [(''Seq-interval'', PDict [])])]])])]])]])]]),
       (''Gene-commentary_seqs'', PList [PDict [
          (''Seq-loc_int'', PDict [(''Seq-interval'', PDict [
             (''Seq-interval_from'', PStr a),
             (''Seq-interval_to'', PStr b)])])]])])"
  "navigate (sample_gene_record acc a b) (seq_interval @ [Key ''Seq-interval_to'']) = Inr (PStr b)"
  "navigate (sample_gene_record acc a b) (seq_interval @ [Key ''Seq-interval_from'']) = Inr (PStr a)"
  by (simp_all add: sample_gene_record_def seq_interval_def)

theorem gene_length_is_abs_difference_witness:
  "(43044294::int) < 43125363 \<and>
   extract_gene_fields (int_of_str sample_env)
     (sample_gene_record ''NP_009225.1'' ''43125363'' ''43044294'') =
     Inr (PStr ''NP_009225.1'', 81069) \<and>
   fetch_gene_data sample_env ''me@example.org'' (1 / 2) ''672'' =
     ([Sleep (1 / 2), Print_gene_done 672 81069,
       Print_protein_done (PStr ''NP_009225.1'') 1863],
      (Some (PStr ''NP_009225.1''), Some 81069, Some 1863))"
proof -
  let ?r = "sample_gene_record ''NP_009225.1'' ''43125363'' ''43044294''"
  have p: "efetch_protein sample_env ''me@example.org'' (PStr ''NP_009225.1'') =
             Inr (replicate 1863 (CHR ''M''))"
    by (simp add: sample_env_def sample_efetch_protein_def)
  have "extract_gene_fields (int_of_str sample_env) ?r =
          Inr (PStr ''NP_009225.1'', \<bar>43044294 - 43125363\<bar>) \<and>
        fetch_gene_data sample_env ''me@example.org'' (1 / 2) ''672'' =
          (case efetch_protein sample_env ''me@example.org'' (PStr ''NP_009225.1'') of
             Inl e \<Rightarrow>
               ([Sleep (1 / 2), Print_gene_done 672 \<bar>43044294 - 43125363\<bar>,
                 Print_error (Inr 672) e],
                (None, None, None))
           | Inr seq \<Rightarrow>
               ([Sleep (1 / 2), Print_gene_done 672 \<bar>43044294 - 43125363\<bar>,
                 Print_protein_done (PStr ''NP_009225.1'') (length seq)],
                (Some (PStr ''NP_009225.1''), Some \<bar>43044294 - 43125363\<bar>,
                 Some (length seq))))"
  proof (rule gene_length_is_abs_difference [where t = "PStr ''43044294''"
        and f = "PStr ''43125363''"])
    show "int_of_cell sample_env ''672'' = Inr 672"
      by (simp add: sample_env_def sample_int_def)
    show "efetch_gene sample_env ''me@example.org'' 672 = Inr ?r"
      by (simp add: sample_env_def sample_efetch_gene_def)
    show "navigate ?r [At0, Key ''Entrezgene_locus'', At0] = Inr (PDict [
       (''Gene-commentary_products'', PList [PDict [
          (''Gene-commentary_products'', PList [PDict [
             (''Gene-commentary_accession'', PStr ''NP_009225.1''),
             (''Gene-commentary_genomic-coords'', PList [PDict [
                (''Seq-loc_mix'', PDict [(''Seq-loc-mix'', PList [PDict [
                   (''Seq-loc_int'', PDict [(''Seq-interval'', PDict [])])]])])]])]])]]),
       (''Gene-commentary_seqs'', PList [PDict [
          (''Seq-loc_int'', PDict [(''Seq-interval'', PDict [
             (''Seq-interval_from'', PStr ''43125363''),
             (''Seq-interval_to'', PStr ''43044294'')])])]])])"
      by (rule sample_navigate)
    show "navigate (PDict [
       (''Gene-commentary_products'', PList [PDict [
          (''Gene-commentary_products'', PList [PDict [
             (''Gene-commentary_accession'', PStr ''NP_009225.1''),
             (''Gene-commentary_genomic-coords'', PList [PDict [
                (''Seq-loc_mix'', PDict [(''Seq-loc-mix'', PList [PDict [
                   (''Seq-loc_int'', PDict [(''Seq-interval'', PDict [])])]])])]])]])]]),
       (''Gene-commentary_seqs'', PList [PDict [
          (''Seq-loc_int'', PDict [(''Seq-interval'', PDict [
             (''Seq-interval_from'', PStr ''43125363''),
             (''Seq-interval_to'', PStr ''43044294'')])])]])])
       [Key ''Gene-commentary_products'', At0, Key ''Gene-commentary_products'', At0] =
       Inr (PDict [
             (''Gene-commentary_accession'', PStr ''NP_009225.1''),
             (''Gene-commentary_genomic-coords'', PList [PDict [
                (''Seq-loc_mix'', PDict [(''Seq-loc-mix'', PList [PDict [
                   (''Seq-loc_int'', PDict [(''Seq-interval'', PDict [])])]])])]])])"
      by simp
    show "navigate (PDict [
             (''Gene-commentary_accession'', PStr ''NP_009225.1''),
             (''Gene-commentary_genomic-coords'', PList [PDict [
                (''Seq-loc_mix'', PDict [(''Seq-loc-mix'', PList [PDict [
                   (''Seq-loc_int'', PDict [(''Seq-interval'', PDict [])])]])])]])])
           [Key ''Gene-commentary_accession''] = Inr (PStr ''NP_009225.1'')"
      by simp
    show "navigate (PDict [
             (''Gene-commentary_accession'', PStr ''NP_009225.1''),
             (''Gene-commentary_genomic-coords'', PList [PDict [
                (''Seq-loc_mix'', PDict [(''Seq-loc-mix'', PList [PDict [
                   (''Seq-loc_int'', PDict [(''Seq-interval'', PDict [])])]])])]])])
           [Key ''Gene-commentary_genomic-coords'', At0, Key ''Seq-loc_mix'',
            Key ''Seq-loc-mix'', At0, Key ''Seq-loc_int'', Key ''Seq-interval''] =
           Inr (PDict [])"
      by simp
    show "navigate ?r (seq_interval @ [Key ''Seq-interval_to'']) = Inr (PStr ''43044294'')"
      by (rule sample_navigate)
    show "py_int (int_of_str sample_env) (PStr ''43044294'') = Inr 43044294"
      by (simp add: sample_env_def sample_int_def)
    show "navigate ?r (seq_interval @ [Key ''Seq-interval_from'']) = Inr (PStr ''43125363'')"
      by (rule sample_navigate)
    show "py_int (int_of_str sample_env) (PStr ''43125363'') = Inr 43125363"
      by (simp add: sample_env_def sample_int_def)
  qed
  then show ?thesis
    by (simp add: p)
qed

lemma process_try_written:
  "written (fst (process_try env rnd input_file)) =
     (case read_email_from_config (files env) ''config.ini'' of
        Inl e \<Rightarrow> []
      | Inr email \<Rightarrow>
          (case read_excel env input_file of
             Inl e \<Rightarrow> []
           | Inr df \<Rightarrow>
               (case column df ''Gene ID'' of
                  Inl e \<Rightarrow> []
                | Inr gene_ids \<Rightarrow>
                    [(output_file_name (os env) input_file,
                      snd (gene_loop env email rnd 0 gene_ids ([], [])))])))"
proof (cases "read_email_from_config (files env) ''config.ini''")
  case (Inl e)
  then show ?thesis by (simp add: process_try_def)
next
  case email: (Inr email)
  show ?thesis
  proof (cases "read_excel env input_file")
    case (Inl e)
    with email show ?thesis by (simp add: process_try_def)
  next
    case df: (Inr df)
    show ?thesis
    proof (cases "column df ''Gene ID''")
      case (Inl e)
      with email df show ?thesis by (simp add: process_try_def)
    next
      case ids: (Inr gene_ids)
      obtain evs data where l: "gene_loop env email rnd 0 gene_ids ([], []) = (evs, data)"
        by (cases "gene_loop env email rnd 0 gene_ids ([], [])")
      have w: "written evs = []"
        using gene_loop_written [of env email rnd 0 gene_ids "[]" "[]"] l by simp
      show ?thesis
        using email df ids l w
        by (simp add: process_try_def Let_def written_append split: option.splits)
    qed
  qed
qed

lemma process_try_exn:
  "snd (process_try env rnd input_file) =
     (case read_email_from_config (files env) ''config.ini'' of
        Inl e \<Rightarrow> Some e
      | Inr email \<Rightarrow>
          (case read_excel env input_file of
             Inl e \<Rightarrow> Some e
           | Inr df \<Rightarrow>
               (case column df ''Gene ID'' of
                  Inl e \<Rightarrow> Some e
                | Inr gene_ids \<Rightarrow>
                    to_excel env (output_file_name (os env) input_file)
                      (snd (gene_loop env email rnd 0 gene_ids ([], []))))))"
  by (simp add: process_try_def Let_def split: sum.splits prod.splits option.splits)

lemma process_gene_list_written:
  "written (fst (process_gene_list env rnd input_file)) =
     written (fst (process_try env rnd input_file))"
  by (simp add: process_gene_list_def written_append split: prod.splits option.splits)

lemma process_gene_list_exn:
  "snd (process_gene_list env rnd input_file) =
     (case snd (process_try env rnd input_file) of
        None \<Rightarrow> None
      | Some e \<Rightarrow> if is_FileNotFoundError_or_KeyError e then None else Some e)"
  by (simp add: process_gene_list_def split: prod.splits option.splits)

text \<open>
  C9: The pauses drawn by \<open>random.uniform\<close> are the only randomness of the
  program: for one environment (the fetch functions are functions of their arguments)
  and one input path, two runs with any two sequences of pauses write the same tables and
  end with the same exception, if any.
\<close>

theorem rerun_gives_same_table:
  "written (fst (process_gene_list env rnd input_file)) =
     written (fst (process_gene_list env rnd' input_file)) \<and>
   snd (process_gene_list env rnd input_file) = snd (process_gene_list env rnd' input_file)"
  by (simp add: process_gene_list_written process_gene_list_exn process_try_written
      process_try_exn gene_loop_rows cong: sum.case_cong)

theorem rerun_gives_same_table_witness:
  "written (fst (process_gene_list sample_env no_delay ''samples.xlsx'')) =
     written (fst (process_gene_list sample_env half_delay ''samples.xlsx'')) \<and>
   snd (process_gene_list sample_env no_delay ''samples.xlsx'') =
     snd (process_gene_list sample_env half_delay ''samples.xlsx'')"
  by (rule rerun_gives_same_table)

lemma gene_loop_keeps_events:
  "set evs \<subseteq> set (fst (gene_loop env email rnd i gene_ids (evs, data)))"
proof (induction gene_ids arbitrary: i evs data)
  case Nil
  then show ?case by simp
next
  case (Cons g gs)
  obtain ev a gl pl where f: "fetch_gene_data env email (rnd i) g = (ev, a, gl, pl)"
    by (metis prod_cases4)
  have "set (evs @ ev) \<subseteq> set (fst (gene_loop env email rnd (Suc i) gs
          (evs @ ev, data @ [\<lparr>Gene_ID = g, Accession = a, Gene_Length = gl,
                              Protein_Length = pl\<rparr>])))"
    by (rule Cons.IH)
  then show ?case
    using f by simp
qed

lemma gene_loop_fetch_events:
  "k < length gene_ids \<Longrightarrow>
   set (fst (fetch_gene_data env email (rnd (i + k)) (gene_ids ! k))) \<subseteq>
     set (fst (gene_loop env email rnd i gene_ids (evs, data)))"
proof (induction gene_ids arbitrary: i evs data k)
  case Nil
  then show ?case by simp
next
  case (Cons g gs)
  obtain ev a gl pl where f: "fetch_gene_data env email (rnd i) g = (ev, a, gl, pl)"
    by (metis prod_cases4)
  let ?acc = "(evs @ ev, data @ [\<lparr>Gene_ID = g, Accession = a, Gene_Length = gl,
                                  Protein_Length = pl\<rparr>])"
  have step: "gene_loop env email rnd i (g # gs) (evs, data) =
                gene_loop env email rnd (Suc i) gs ?acc"
    using f by simp
  show ?case
  proof (cases k)
    case 0
    have "set (evs @ ev) \<subseteq> set (fst (gene_loop env email rnd (Suc i) gs ?acc))"
      by (rule gene_loop_keeps_events)
    then show ?thesis
      using 0 f step by simp
  next
    case (Suc k')
    with Cons.prems have "k' < length gs" by simp
    then have "set (fst (fetch_gene_data env email (rnd (Suc i + k')) (gs ! k'))) \<subseteq>
                 set (fst (gene_loop env email rnd (Suc i) gs ?acc))"
      by (rule Cons.IH)
    then show ?thesis
      using Suc step by simp
  qed
qed

lemma process_events_loop:
  assumes "read_email_from_config (files env) ''config.ini'' = Inr email"
    and "read_excel env input_file = Inr df"
    and "df ''Gene ID'' = Some gene_ids"
  shows "set (fst (gene_loop env email rnd 0 gene_ids ([], []))) \<subseteq>
           set (fst (process_gene_list env rnd input_file))"
proof -
  obtain evs data where l: "gene_loop env email rnd 0 gene_ids ([], []) = (evs, data)"
    by (cases "gene_loop env email rnd 0 gene_ids ([], [])")
  show ?thesis
    using l
    by (auto simp: process_gene_list_def process_try_loop [OF assms l] Let_def
        split: option.splits)
qed

lemma process_exn_written:
  assumes "read_email_from_config (files env) ''config.ini'' = Inr email"
    and "read_excel env input_file = Inr df"
    and "df ''Gene ID'' = Some gene_ids"
  shows "snd (process_gene_list env rnd input_file) =
           (case to_excel env (output_file_name (os env) input_file)
                   (snd (gene_loop env email rnd 0 gene_ids ([], []))) of
              None \<Rightarrow> None
            | Some x \<Rightarrow> if is_FileNotFoundError_or_KeyError x then None else Some x)"
  using assms by (simp add: process_gene_list_exn process_try_exn column_def)

lemma gene_loop_row:
  assumes "j < length gene_ids"
  shows "snd (gene_loop env email rnd 0 gene_ids ([], [])) ! j =
           (case snd (fetch_gene_data env email (rnd j) (gene_ids ! j)) of
              (accession, gene_len, protein_len) \<Rightarrow>
                \<lparr>Gene_ID = gene_ids ! j, Accession = accession, Gene_Length = gene_len,
                 Protein_Length = protein_len\<rparr>)"
  using assms fetch_result_no_delay [of env email 0 "gene_ids ! j" "rnd j"]
  by (simp add: gene_loop_rows)

text \<open>
  C3: When a stage of \<open>fetch_gene_data\<close> raises an exception for the
  identifier at position \<open>k\<close> of the input column (the integer conversion, the gene
  lookup, the navigation of the record with its conversions, or the protein lookup with
  its parsing), \<open>fetch_gene_data\<close> prints the current \<open>gene_id\<close> with the exception and
  returns three absent values; \<open>process_gene_list\<close> prints that line, and still hands
  one table to \<open>to_excel\<close>: it has a row for every identifier of the column, row
  \<open>k\<close> holds the identifier with three absent values, every row holds what the fetch of
  its own identifier returned, and the only exception that can leave the function is one
  raised by the writing of the table.
\<close>

theorem fetch_failure_gives_absent_row:
  assumes "int_of_cell env gene_id = Inl e \<or>
           (\<exists>gid. int_of_cell env gene_id = Inr gid \<and>
              (efetch_gene env email gid = Inl e \<or>
               (\<exists>gene_record. efetch_gene env email gid = Inr gene_record \<and>
                  (extract_gene_fields (int_of_str env) gene_record = Inl e \<or>
                   (\<exists>acc len.
                      extract_gene_fields (int_of_str env) gene_record = Inr (acc, len) \<and>
                      efetch_protein env email acc = Inl e)))))"
    and "read_email_from_config (files env) ''config.ini'' = Inr email"
    and "read_excel env input_file = Inr df"
    and "df ''Gene ID'' = Some gene_ids"
    and "k < length gene_ids"
    and "gene_ids ! k = gene_id"
  shows "\<exists>evs bound data.
           bound = (case int_of_cell env gene_id of Inl x \<Rightarrow> Inl gene_id | Inr gid \<Rightarrow> Inr gid) \<and>
           fetch_gene_data env email (rnd k) gene_id =
             (evs @ [Print_error bound e], (None, None, None)) \<and>
           Print_error bound e \<in> set (fst (process_gene_list env rnd input_file)) \<and>
           written (fst (process_gene_list env rnd input_file)) =
             [(output_file_name (os env) input_file, data)] \<and>
           length data = length gene_ids \<and>
           data ! k = \<lparr>Gene_ID = gene_id, Accession = None, Gene_Length = None,
                       Protein_Length = None\<rparr> \<and>
           (\<forall>j<length gene_ids.
              data ! j =
                (case snd (fetch_gene_data env email (rnd j) (gene_ids ! j)) of
                   (accession, gene_len, protein_len) \<Rightarrow>
                     \<lparr>Gene_ID = gene_ids ! j, Accession = accession, Gene_Length = gene_len,
                      Protein_Length = protein_len\<rparr>)) \<and>
           snd (process_gene_list env rnd input_file) =
             (case to_excel env (output_file_name (os env) input_file) data of
                None \<Rightarrow> None
              | Some x \<Rightarrow> if is_FileNotFoundError_or_KeyError x then None else Some x)"
proof -
  let ?bound = "case int_of_cell env gene_id of Inl x \<Rightarrow> Inl gene_id | Inr gid \<Rightarrow> Inr gid"
  let ?data = "snd (gene_loop env email rnd 0 gene_ids ([], []))"
  note cfg = assms(2-4)
  have "\<exists>evs. fetch_try env email (rnd k) gene_id = (evs, ?bound, Inl e)"
    using assms(1)
    by (auto simp: fetch_try_int_fails fetch_try_lookup_fails fetch_try_navigation_fails
        fetch_try_protein_fails)
  then obtain evs where "fetch_try env email (rnd k) gene_id = (evs, ?bound, Inl e)" ..
  then have f: "fetch_gene_data env email (rnd k) gene_id =
                  (evs @ [Print_error ?bound e], (None, None, None))"
    by (rule fetch_gene_data_caught)
  have "set (fst (fetch_gene_data env email (rnd (0 + k)) (gene_ids ! k))) \<subseteq>
          set (fst (gene_loop env email rnd 0 gene_ids ([], [])))"
    using assms(5) by (rule gene_loop_fetch_events)
  with f assms(6) have "Print_error ?bound e \<in> set (fst (gene_loop env email rnd 0 gene_ids ([], [])))"
    by auto
  with process_events_loop [OF cfg, of rnd]
  have logged: "Print_error ?bound e \<in> set (fst (process_gene_list env rnd input_file))"
    by (rule subsetD)
  have w: "written (fst (process_gene_list env rnd input_file)) =
             [(output_file_name (os env) input_file, ?data)]"
    by (rule process_written [OF cfg])
  have len: "length ?data = length gene_ids"
    by (simp add: gene_loop_rows)
  have rows: "\<forall>j<length gene_ids.
      ?data ! j =
        (case snd (fetch_gene_data env email (rnd j) (gene_ids ! j)) of
           (accession, gene_len, protein_len) \<Rightarrow>
             \<lparr>Gene_ID = gene_ids ! j, Accession = accession, Gene_Length = gene_len,
              Protein_Length = protein_len\<rparr>)"
    by (simp add: gene_loop_row)
  have row: "?data ! k = \<lparr>Gene_ID = gene_id, Accession = None, Gene_Length = None,
                           Protein_Length = None\<rparr>"
    using gene_loop_row [OF assms(5), of env email rnd] f assms(6) by simp
  have x: "snd (process_gene_list env rnd input_file) =
             (case to_excel env (output_file_name (os env) input_file) ?data of
                None \<Rightarrow> None
              | Some x \<Rightarrow> if is_FileNotFoundError_or_KeyError x then None else Some x)"
    by (rule process_exn_written [OF cfg])
  show ?thesis
    using f logged w len row rows x by (intro exI conjI) (rule refl)
qed

theorem fetch_failure_gives_absent_row_witness:
  "\<exists>data.
     written (fst (process_gene_list sample_env half_delay ''samples.xlsx'')) =
       [(output_file_name posix ''samples.xlsx'', data)] \<and>
     length data = 6 \<and>
     data ! 3 = \<lparr>Gene_ID = ''3'', Accession = None, Gene_Length = None,
                 Protein_Length = None\<rparr> \<and>
     data ! 5 = \<lparr>Gene_ID = ''672'', Accession = Some (PStr ''NP_009225.1''),
                 Gene_Length = Some 81069, Protein_Length = Some 1863\<rparr> \<and>
     Print_error (Inr 3) (IndexError ''list index out of range'')
       \<in> set (fst (process_gene_list sample_env half_delay ''samples.xlsx'')) \<and>
     snd (process_gene_list sample_env half_delay ''samples.xlsx'') = None"
proof -
  let ?ids = "[''7157'', ''abc'', ''4'', ''3'', ''5'', ''672'']"
  let ?e = "IndexError ''list index out of range''"
  have stage: "int_of_cell sample_env ''3'' = Inl ?e \<or>
           (\<exists>gid. int_of_cell sample_env ''3'' = Inr gid \<and>
              (efetch_gene sample_env ''me@example.org'' gid = Inl ?e \<or>
               (\<exists>gene_record. efetch_gene sample_env ''me@example.org'' gid = Inr gene_record \<and>
                  (extract_gene_fields (int_of_str sample_env) gene_record = Inl ?e \<or>
                   (\<exists>acc len.
                      extract_gene_fields (int_of_str sample_env) gene_record = Inr (acc, len) \<and>
                      efetch_protein sample_env ''me@example.org'' acc = Inl ?e)))))"
    by (intro disjI2 exI [of _ 3] exI [of _ "PList []"] conjI disjI1
        sample_int_3 sample_gene_3 sample_extract_3)
  have r: "read_excel sample_env ''samples.xlsx'' = Inr [''Gene ID'' \<mapsto> ?ids]"
    by (simp add: sample_env_def sample_read_excel_def)
  have c: "[''Gene ID'' \<mapsto> ?ids] ''Gene ID'' = Some ?ids"
    by simp
  have k: "3 < length ?ids"
    by simp
  have g: "?ids ! 3 = ''3''"
    by simp
  have o: "os sample_env = posix"
    by (simp add: sample_env_def)
  have six: "length ?ids = 6"
    by simp
  have last: "?ids ! 5 = ''672''"
    by simp
  have t: "to_excel sample_env path rows = None" for path rows
    by (simp add: sample_env_def sample_to_excel_def)
  have f672: "snd (fetch_gene_data sample_env ''me@example.org'' (half_delay 5) ''672'') =
                (Some (PStr ''NP_009225.1''), Some 81069, Some 1863)"
    using fetch_result_no_delay [of sample_env "''me@example.org''" "half_delay 5" "''672''" 0]
    by (simp only: sample_fetch_672)
  from fetch_failure_gives_absent_row [where env = sample_env and gene_id = "''3''"
      and e = ?e and email = "''me@example.org''" and input_file = "''samples.xlsx''"
      and df = "[''Gene ID'' \<mapsto> ?ids]" and gene_ids = ?ids and k = 3
      and rnd = half_delay, OF stage sample_env_email r c k g]
  show ?thesis
    apply (elim exE conjE)
    subgoal premises p for evs bound data
    proof (intro exI conjI)
      have bound: "bound = Inr 3"
        using p(1) by (simp only: sample_int_3 sum.case)
      show "written (fst (process_gene_list sample_env half_delay ''samples.xlsx'')) =
              [(output_file_name posix ''samples.xlsx'', data)]"
        using p(4) unfolding o .
      show "length data = 6"
        using p(5) unfolding six .
      show "data ! 3 = \<lparr>Gene_ID = ''3'', Accession = None, Gene_Length = None,
                         Protein_Length = None\<rparr>"
        by (fact p(6))
      have "5 < length ?ids"
        by simp
      with p(7) [THEN spec, of 5] have "data ! 5 =
          (case snd (fetch_gene_data sample_env ''me@example.org'' (half_delay 5) (?ids ! 5)) of
             (accession, gene_len, protein_len) \<Rightarrow>
               \<lparr>Gene_ID = ?ids ! 5, Accession = accession, Gene_Length = gene_len,
                Protein_Length = protein_len\<rparr>)"
        by (rule mp)
      then show "data ! 5 = \<lparr>Gene_ID = ''672'', Accession = Some (PStr ''NP_009225.1''),
                             Gene_Length = Some 81069, Protein_Length = Some 1863\<rparr>"
        by (simp only: last f672 prod.case)
      show "Print_error (Inr 3) ?e
              \<in> set (fst (process_gene_list sample_env half_delay ''samples.xlsx''))"
        using p(3) unfolding bound .
      show "snd (process_gene_list sample_env half_delay ''samples.xlsx'') = None"
        using p(8) by (simp only: t option.case)
    qed
    done
qed

subsection \<open>The output file name\<close>

lemma rfind_bounds: "- 1 \<le> rfind p c \<and> rfind p c < int (length p)"
  by (induction p) (auto simp: Let_def)

lemma rfind_negative: "rfind p c < 0 \<longleftrightarrow> c \<notin> set p"
  by (induction p) (auto simp: Let_def)

lemma rfind_append_absent: "c \<notin> set ys \<Longrightarrow> rfind (xs @ ys) c = rfind xs c"
proof (induction xs)
  case Nil
  then have "rfind ys c < 0" by (simp add: rfind_negative)
  moreover have "- 1 \<le> rfind ys c" by (simp add: rfind_bounds)
  ultimately show ?case by simp
next
  case (Cons x xs)
  then show ?case by (simp add: Let_def)
qed

lemma rfind_drop_absent: "0 \<le> rfind p c \<Longrightarrow> c \<notin> set (drop (nat (rfind p c) + 1) p)"
proof (induction p)
  case Nil
  then show ?case by simp
next
  case (Cons x xs)
  show ?case
  proof (cases "0 \<le> rfind xs c")
    case True
    then have "nat (rfind (x # xs) c) = Suc (nat (rfind xs c))"
      by (simp add: Let_def nat_add_distrib)
    with Cons.IH [OF True] show ?thesis by simp
  next
    case False
    then have "c \<notin> set xs" by (simp add: rfind_negative [symmetric])
    moreover from False Cons.prems have "rfind (x # xs) c = 0"
      by (simp add: Let_def split: if_splits)
    ultimately show ?thesis by simp
  qed
qed

lemma rfind_at: "0 \<le> rfind p c \<Longrightarrow> p ! nat (rfind p c) = c"
proof (induction p)
  case Nil
  then show ?case by simp
next
  case (Cons x xs)
  show ?case
  proof (cases "0 \<le> rfind xs c")
    case True
    then have "nat (rfind (x # xs) c) = Suc (nat (rfind xs c))"
      by (simp add: Let_def nat_add_distrib)
    with Cons.IH [OF True] show ?thesis by simp
  next
    case False
    with Cons.prems have "rfind (x # xs) c = 0" and "x = c"
      by (simp_all add: Let_def split: if_splits)
    then show ?thesis by simp
  qed
qed

lemma rfind_take: "rfind p c < int n \<Longrightarrow> rfind (take n p) c = rfind p c"
proof (cases "0 \<le> rfind p c")
  case True
  assume lt: "rfind p c < int n"
  from rfind_drop_absent [OF True] have a: "c \<notin> set (drop (nat (rfind p c) + 1) p)" .
  have "nat (rfind p c) + 1 \<le> n" using lt True by linarith
  then have "set (drop n p) \<subseteq> set (drop (nat (rfind p c) + 1) p)"
    by (rule set_drop_subset_set_drop)
  with a have "c \<notin> set (drop n p)" by blast
  then have "rfind (take n p @ drop n p) c = rfind (take n p) c"
    by (rule rfind_append_absent)
  then show ?thesis by simp
next
  case False
  then have "c \<notin> set p" by (simp add: rfind_negative [symmetric])
  then have "c \<notin> set (take n p)" by (meson in_set_takeD)
  then have "rfind (take n p) c < 0" by (simp add: rfind_negative)
  with False rfind_bounds [of "take n p" c] rfind_bounds [of p c] show ?thesis by linarith
qed

lemma skip_leading_dots_result:
  "skip_leading_dots p extsep i dotIndex = Some split \<Longrightarrow>
   split = (take (nat dotIndex) p, drop (nat dotIndex) p)"
proof (induction p extsep i dotIndex rule: skip_leading_dots.induct)
  case (1 p extsep filenameIndex dotIndex)
  from "1.prems" show ?case
    by (subst (asm) skip_leading_dots.simps) (auto split: if_splits dest: "1.IH")
qed

lemma splitext_generic_cases:
  "splitext_generic p sep altsep extsep = (p, []) \<or>
   (splitext_generic p sep altsep extsep =
      (take (nat (rfind p extsep)) p, drop (nat (rfind p extsep)) p) \<and>
    (case altsep of None \<Rightarrow> rfind p sep | Some a \<Rightarrow> max (rfind p sep) (rfind p a))
      < rfind p extsep)"
  by (auto simp: splitext_generic_def Let_def split: option.splits if_splits
      dest: skip_leading_dots_result)

lemma rfind_lt_drop: "rfind p c < int n \<Longrightarrow> c \<notin> set (drop n p)"
proof (cases "0 \<le> rfind p c")
  case True
  assume lt: "rfind p c < int n"
  from rfind_drop_absent [OF True] have a: "c \<notin> set (drop (nat (rfind p c) + 1) p)" .
  have "nat (rfind p c) + 1 \<le> n" using lt True by linarith
  then have "set (drop n p) \<subseteq> set (drop (nat (rfind p c) + 1) p)"
    by (rule set_drop_subset_set_drop)
  with a show ?thesis by blast
next
  case False
  then have "c \<notin> set p" by (simp add: rfind_negative [symmetric])
  then show ?thesis by (meson in_set_dropD)
qed

lemma last_separator_bounds:
  "- 1 \<le> last_separator name p \<and> last_separator name p < int (length p)"
  using rfind_bounds [of p "os_sep name"] rfind_bounds [of p "the (os_altsep name)"]
  by (auto simp: last_separator_def split: option.splits)

lemma last_separator_ge: "c \<in> separators name \<Longrightarrow> rfind p c \<le> last_separator name p"
  by (auto simp: separators_def last_separator_def split: option.splits)

lemma last_separator_append:
  assumes "set ys \<inter> separators name = {}"
  shows "last_separator name (xs @ ys) = last_separator name xs"
proof -
  have "c \<in> separators name \<Longrightarrow> rfind (xs @ ys) c = rfind xs c" for c
    using assms by (intro rfind_append_absent) blast
  then show ?thesis
    by (simp add: last_separator_def separators_def split: option.splits)
qed

lemma last_separator_take:
  assumes "last_separator name p < int n"
  shows "last_separator name (take n p) = last_separator name p"
proof -
  have "c \<in> separators name \<Longrightarrow> rfind (take n p) c = rfind p c" for c
    using assms last_separator_ge [of c name p] by (intro rfind_take) linarith
  then show ?thesis
    by (simp add: last_separator_def separators_def split: option.splits)
qed

lemma suffix_no_separator: "set ''_output.xlsx'' \<inter> separators name = {}"
  by (cases name) (simp_all add: separators_def os_sep_def os_altsep_def)

lemma splitext_cases:
  "splitext name p = (p, []) \<or>
   (splitext name p = (take (nat (rfind p (CHR ''.''))) p, drop (nat (rfind p (CHR ''.''))) p) \<and>
    last_separator name p < rfind p (CHR ''.''))"
  using splitext_generic_cases [of p "os_sep name" "os_altsep name" "CHR ''.''"]
  by (simp add: splitext_def last_separator_def)

lemma directory_part_append:
  assumes "set ys \<inter> separators name = {}"
  shows "directory_part name (xs @ ys) = directory_part name xs"
proof -
  have "nat (last_separator name xs + 1) \<le> length xs"
    using last_separator_bounds [of name xs] by linarith
  then show ?thesis
    by (simp add: directory_part_def last_separator_append [OF assms])
qed

lemma directory_part_take:
  assumes "last_separator name p < int n"
  shows "directory_part name (take n p) = directory_part name p"
proof -
  have "nat (last_separator name p + 1) \<le> n"
    using assms last_separator_bounds [of name p] by linarith
  then show ?thesis
    by (simp add: directory_part_def last_separator_take [OF assms] min_def)
qed

lemma skip_leading_dots_found:
  "0 \<le> i \<Longrightarrow> dotIndex < int (length p) \<Longrightarrow>
   (skip_leading_dots p extsep i dotIndex \<noteq> None) \<longleftrightarrow>
     (\<exists>k. i \<le> k \<and> k < dotIndex \<and> p ! nat k \<noteq> extsep)"
proof (induction p extsep i dotIndex rule: skip_leading_dots.induct)
  case (1 p extsep i dotIndex)
  show ?case
  proof (cases "i < dotIndex")
    case False
    then show ?thesis
      by (subst skip_leading_dots.simps) auto
  next
    case lt: True
    with "1.prems" have len: "nat i < length p" by linarith
    then have one: "take 1 (drop (nat i) p) = [p ! nat i]"
      by (simp add: take_Suc_conv_app_nth)
    show ?thesis
    proof (cases "p ! nat i = extsep")
      case False
      with lt one show ?thesis
        by (subst skip_leading_dots.simps) auto
    next
      case eq: True
      have "(skip_leading_dots p extsep (i + 1) dotIndex \<noteq> None) \<longleftrightarrow>
              (\<exists>k. i + 1 \<le> k \<and> k < dotIndex \<and> p ! nat k \<noteq> extsep)"
        using "1.IH" [OF lt] one eq "1.prems" by simp
      moreover have "(\<exists>k. i + 1 \<le> k \<and> k < dotIndex \<and> p ! nat k \<noteq> extsep) \<longleftrightarrow>
                     (\<exists>k. i \<le> k \<and> k < dotIndex \<and> p ! nat k \<noteq> extsep)"
      proof
        assume "\<exists>k. i + 1 \<le> k \<and> k < dotIndex \<and> p ! nat k \<noteq> extsep"
        then obtain k where "i + 1 \<le> k" "k < dotIndex" "p ! nat k \<noteq> extsep" by blast
        then have "i \<le> k \<and> k < dotIndex \<and> p ! nat k \<noteq> extsep" by simp
        then show "\<exists>k. i \<le> k \<and> k < dotIndex \<and> p ! nat k \<noteq> extsep" ..
      next
        assume "\<exists>k. i \<le> k \<and> k < dotIndex \<and> p ! nat k \<noteq> extsep"
        then obtain k where k: "i \<le> k" "k < dotIndex" "p ! nat k \<noteq> extsep" by blast
        with eq have "k \<noteq> i" by auto
        with k have "i + 1 \<le> k \<and> k < dotIndex \<and> p ! nat k \<noteq> extsep" by simp
        then show "\<exists>k. i + 1 \<le> k \<and> k < dotIndex \<and> p ! nat k \<noteq> extsep" ..
      qed
      ultimately show ?thesis
        using lt one eq by (subst skip_leading_dots.simps) simp
    qed
  qed
qed

lemma splitext_extension_found:
  "(snd (splitext name p) \<noteq> []) \<longleftrightarrow>
     (\<exists>k. last_separator name p < k \<and> k < rfind p (CHR ''.'') \<and> p ! nat k \<noteq> CHR ''.'')"
proof -
  let ?ls = "last_separator name p" and ?dot = "rfind p (CHR ''.'')"
  have split: "splitext name p =
      (case (if ?dot > ?ls then skip_leading_dots p (CHR ''.'') (?ls + 1) ?dot else None) of
         Some split \<Rightarrow> split | None \<Rightarrow> (p, []))"
    by (simp add: splitext_def splitext_generic_def last_separator_def Let_def)
  show ?thesis
  proof (cases "?dot > ?ls")
    case False
    then show ?thesis by (auto simp: split)
  next
    case True
    have nonneg: "0 \<le> ?ls + 1"
      using last_separator_bounds [of name p] by linarith
    have len: "?dot < int (length p)"
      using rfind_bounds [of p "CHR ''.''"] by simp
    have dlen: "nat ?dot < length p"
      using len True nonneg by linarith
    have shift: "(?ls + 1 \<le> k) = (?ls < k)" for k
      by linarith
    note found = skip_leading_dots_found [OF nonneg len, of "CHR ''.''", unfolded shift]
    show ?thesis
    proof (cases "skip_leading_dots p (CHR ''.'') (?ls + 1) ?dot")
      case None
      with found have "\<not> (\<exists>k. ?ls < k \<and> k < ?dot \<and> p ! nat k \<noteq> CHR ''.'')"
        by simp
      with None True show ?thesis by (simp add: split)
    next
      case (Some sp)
      with found have ex: "\<exists>k. ?ls < k \<and> k < ?dot \<and> p ! nat k \<noteq> CHR ''.''"
        by simp
      from skip_leading_dots_result [OF Some] dlen have "snd sp \<noteq> []"
        by simp
      with Some True ex show ?thesis by (simp add: split)
    qed
  qed
qed

text \<open>
  C8: The output file name is the root that \<open>os.path.splitext\<close> returns for
  the input path followed by \<open>_output.xlsx\<close>: root and extension make up the input
  path; the extension is empty or a dot followed by characters that are neither dots nor
  separators; it is not empty exactly when, in the last component of the path, a character
  other than a dot comes before the last dot; and the output path has the same directory
  part as the input path.
\<close>

theorem output_file_name_shape:
  "\<exists>root ext.
     splitext name input_file = (root, ext) \<and>
     input_file = root @ ext \<and>
     output_file_name name input_file = root @ ''_output'' @ ''.xlsx'' \<and>
     (ext = [] \<or>
      (\<exists>e. ext = CHR ''.'' # e \<and> CHR ''.'' \<notin> set e \<and> set e \<inter> separators name = {})) \<and>
     ((ext \<noteq> []) =
      (\<exists>k. last_separator name input_file < k \<and> k < rfind input_file (CHR ''.'') \<and>
           input_file ! nat k \<noteq> CHR ''.'')) \<and>
     directory_part name (output_file_name name input_file) = directory_part name input_file"
proof -
  let ?dot = "rfind input_file (CHR ''.'')"
  from splitext_cases [of name input_file] show ?thesis
  proof
    assume a: "splitext name input_file = (input_file, [])"
    have "directory_part name (input_file @ ''_output.xlsx'') = directory_part name input_file"
      by (rule directory_part_append [OF suffix_no_separator])
    moreover have "([] \<noteq> ([]::string)) =
        (\<exists>k. last_separator name input_file < k \<and> k < rfind input_file (CHR ''.'') \<and>
             input_file ! nat k \<noteq> CHR ''.'')"
      using splitext_extension_found [of name input_file] a by simp
    ultimately show ?thesis
      using a by (simp add: output_file_name_def)
  next
    assume "splitext name input_file = (take (nat ?dot) input_file, drop (nat ?dot) input_file) \<and>
            last_separator name input_file < ?dot"
    then have a: "splitext name input_file = (take (nat ?dot) input_file, drop (nat ?dot) input_file)"
      and lt: "last_separator name input_file < ?dot"
      by simp_all
    have nonneg: "0 \<le> ?dot"
      using lt last_separator_bounds [of name input_file] by linarith
    have len: "nat ?dot < length input_file"
      using rfind_bounds [of input_file "CHR ''.''"] nonneg by linarith
    have ext: "drop (nat ?dot) input_file = CHR ''.'' # drop (Suc (nat ?dot)) input_file"
      using Cons_nth_drop_Suc [OF len] rfind_at [OF nonneg] by simp
    have nodot: "CHR ''.'' \<notin> set (drop (Suc (nat ?dot)) input_file)"
      using rfind_drop_absent [OF nonneg] by simp
    have nosep: "set (drop (Suc (nat ?dot)) input_file) \<inter> separators name = {}"
    proof -
      have "c \<notin> set (drop (Suc (nat ?dot)) input_file)" if "c \<in> separators name" for c
        using last_separator_ge [OF that, of input_file] lt nonneg
        by (intro rfind_lt_drop) linarith
      then show ?thesis by blast
    qed
    have "directory_part name (take (nat ?dot) input_file @ ''_output.xlsx'') =
            directory_part name (take (nat ?dot) input_file)"
      by (rule directory_part_append [OF suffix_no_separator])
    also have "\<dots> = directory_part name input_file"
      using lt nonneg by (intro directory_part_take) linarith
    finally have dir: "directory_part name (take (nat ?dot) input_file @ ''_output.xlsx'') =
            directory_part name input_file" .
    show ?thesis
    proof (intro exI conjI)
      show "splitext name input_file = (take (nat ?dot) input_file, drop (nat ?dot) input_file)"
        by (fact a)
      show "input_file = take (nat ?dot) input_file @ drop (nat ?dot) input_file"
        by simp
      show "output_file_name name input_file = take (nat ?dot) input_file @ ''_output'' @ ''.xlsx''"
        using a by (simp add: output_file_name_def)
      show "drop (nat ?dot) input_file = [] \<or>
            (\<exists>e. drop (nat ?dot) input_file = CHR ''.'' # e \<and> CHR ''.'' \<notin> set e \<and>
                 set e \<inter> separators name = {})"
        using ext nodot nosep by blast
      show "(drop (nat ?dot) input_file \<noteq> []) =
            (\<exists>k. last_separator name input_file < k \<and> k < rfind input_file (CHR ''.'') \<and>
                 input_file ! nat k \<noteq> CHR ''.'')"
        using splitext_extension_found [of name input_file] a by simp
      show "directory_part name (output_file_name name input_file) = directory_part name input_file"
        using a dir by (simp add: output_file_name_def)
    qed
  qed
qed

lemma samples_splitext: "splitext posix ''samples.xlsx'' = (''samples'', ''.xlsx'')"
  by code_simp

lemma splitext_examples:
  "splitext posix ''archive.tar.gz'' = (''archive.tar'', ''.gz'')"
  "splitext posix ''.bashrc'' = (''.bashrc'', [])"
  "splitext posix ''dir.d/file'' = (''dir.d/file'', [])"
  "splitext posix ''a/.hidden.txt'' = (''a/.hidden'', ''.txt'')"
  "splitext posix ''x.'' = (''x'', ''.'')"
  "splitext nt ''dir.d/file'' = (''dir.d/file'', [])"
  by code_simp+

theorem output_file_name_shape_witness:
  "output_file_name posix ''samples.xlsx'' = ''samples_output.xlsx'' \<and>
   directory_part posix (output_file_name posix ''samples.xlsx'') =
     directory_part posix ''samples.xlsx''"
proof -
  from output_file_name_shape [of posix "''samples.xlsx''"]
  obtain root ext where s: "splitext posix ''samples.xlsx'' = (root, ext)"
    and o: "output_file_name posix ''samples.xlsx'' = root @ ''_output'' @ ''.xlsx''"
    and d: "directory_part posix (output_file_name posix ''samples.xlsx'') =
              directory_part posix ''samples.xlsx''"
    by (elim exE conjE)
  from s have "root = ''samples''" by (simp add: samples_splitext)
  with o d show ?thesis by simp
qed

end
